theory Spec2Isabelle
  imports Complex_Main
begin

section \<open>Data model\<close>

text \<open>
  The add-in computes with Python floats. They are modelled as the real numbers: every
  statement below is about the arithmetic the code writes down, without rounding.
  Points and vectors are the source's 3-tuples (\<^verbatim>\<open>models/types.py\<close>).
\<close>

type_synonym Point3D = "real \<times> real \<times> real"
type_synonym Vector3D = "real \<times> real \<times> real"

text \<open>
  Exceptions are values. \<^verbatim>\<open>calculations.py\<close> raises \<^verbatim>\<open>ValueError\<close> with a message
  at two places; the vector functions raise \<^verbatim>\<open>ZeroVectorError\<close>, whose message says
  which operand was degenerate.
\<close>

datatype operand = First_vector | Second_vector

datatype error = ValueError string | ZeroVectorError operand

text \<open>\<^verbatim>\<open>SegmentType = Literal["straight", "bend"]\<close>\<close>

datatype SegmentType = straight | bend

text \<open>
  The sketch entities of the CAD system, reduced to what the code reads from them: the world
  coordinates of the two end points and, for an arc, its radius (all in cm).
\<close>

record SketchLine =
  startSketchPoint :: Point3D
  endSketchPoint :: Point3D

record SketchArc =
  arcStartSketchPoint :: Point3D
  arcEndSketchPoint :: Point3D
  radius :: real

text \<open>
  \<^verbatim>\<open>PathElement\<close>: the element type (\<^verbatim>\<open>"line"\<close> or \<^verbatim>\<open>"arc"\<close>) together with the
  entity of that type.
\<close>

datatype PathElement = line SketchLine | arc SketchArc

text \<open>\<^verbatim>\<open>models/units.py\<close>\<close>

record UnitConfig =
  is_metric :: bool
  unit_name :: string
  unit_symbol :: string
  cm_to_unit :: real
  default_tube_od :: string
  default_precision :: int
  valid_precisions :: "int list"

text \<open>
  The result records (\<^verbatim>\<open>models/bend_data.py\<close>), with the fields that the constructor calls
  in \<^verbatim>\<open>calculations.py\<close> and \<^verbatim>\<open>bend_sheet_generator.py\<close> give them. Field names carry
  the initials of their record, since several records share a field name in the source
  (\<^verbatim>\<open>number\<close>, \<^verbatim>\<open>length\<close>, \<^verbatim>\<open>rotation\<close>, \<^verbatim>\<open>bend_angle\<close>).
\<close>

record StraightSection =
  ss_number :: int
  ss_length :: real
  ss_start :: Point3D
  ss_end :: Point3D
  ss_vector :: Vector3D

record BendData =
  bd_number :: int
  bd_angle :: real
  bd_rotation :: "real option"
  bd_arc_length :: real

record PathSegment =
  ps_segment_type :: SegmentType
  ps_name :: string
  ps_length :: real
  ps_starts_at :: real
  ps_ends_at :: real
  ps_bend_angle :: "real option"
  ps_rotation :: "real option"

record MarkPosition =
  mp_bend_num :: int
  mp_mark_position :: real
  mp_bend_angle :: real
  mp_rotation :: "real option"

section \<open>Primary axis (\<^verbatim>\<open>core/geometry_extraction.py\<close>)\<close>

text \<open>Indexing a 3-tuple, \<^verbatim>\<open>t[i]\<close>, for the indices 0, 1 and 2 that the code uses.\<close>

definition component :: "real \<times> real \<times> real \<Rightarrow> nat \<Rightarrow> real" where
  "component t i = (case t of (x, y, z) \<Rightarrow> if i = 0 then x else if i = 1 then y else z)"

definition determine_primary_axis :: "Point3D \<Rightarrow> Point3D \<Rightarrow> string \<times> nat \<times> string \<times> string" where
  "determine_primary_axis start end_pt =
     (let displacement = (component end_pt 0 - component start 0,
                          component end_pt 1 - component start 1,
                          component end_pt 2 - component start 2);
          abs_disp = (\<bar>component displacement 0\<bar>, \<bar>component displacement 1\<bar>,
                      \<bar>component displacement 2\<bar>);
          max_disp = max (component abs_disp 0) (max (component abs_disp 1) (component abs_disp 2));
          (axis, idx) = (if component abs_disp 0 = max_disp then (''X'', 0)
                         else if component abs_disp 1 = max_disp then (''Y'', 1)
                         else (''Z'', 2));
          current = (if component displacement idx > 0 then ''+'' @ axis else ''-'' @ axis);
          opposite = (if component displacement idx > 0 then ''-'' @ axis else ''+'' @ axis)
      in (axis, idx, current, opposite))"

section \<open>CLR validation (\<^verbatim>\<open>core/calculations.py\<close>)\<close>

definition CLR_TOLERANCE_RATIO :: real where
  "CLR_TOLERANCE_RATIO = 0.002"

definition validate_clr_consistency :: "SketchArc list \<Rightarrow> UnitConfig \<Rightarrow> real \<times> bool \<times> real list" where
  "validate_clr_consistency arcs units =
     (let clr_values = map (\<lambda>a. radius a * cm_to_unit units) arcs
      in case clr_values of
           [] \<Rightarrow> (0, False, [])
         | clr # _ \<Rightarrow>
             if clr \<le> 0 then (0, True, clr_values)
             else let tolerance = max (clr * CLR_TOLERANCE_RATIO) 0.001;
                      has_mismatch = list_ex (\<lambda>c. \<bar>c - clr\<bar> > tolerance) clr_values
                  in (clr, has_mismatch, clr_values))"

text \<open>An arc of the given radius, and the unit configuration of a design in cm.\<close>

definition arc_of_radius :: "real \<Rightarrow> SketchArc" where
  "arc_of_radius r = \<lparr>arcStartSketchPoint = (0, 0, 0), arcEndSketchPoint = (0, 0, 0), radius = r\<rparr>"

definition cm_units :: UnitConfig where
  "cm_units = \<lparr>is_metric = True, unit_name = ''cm'', unit_symbol = ''cm'', cm_to_unit = 1,
     default_tube_od = ''4.445'', default_precision = 1, valid_precisions = [0, 1, 2, 5, 10]\<rparr>"

section \<open>Vector math\<close>

text \<open>
  \<^verbatim>\<open>core/geometry.py\<close>, which \<^verbatim>\<open>calculations.py\<close> imports its vector functions from, is
  specified but its text is not available; each of its functions below follows the
  specification of the vector math component (and the expectations of
  \<^verbatim>\<open>tests/test_geometry.py\<close>).
\<close>

text \<open>Modelled from the spec: \<^verbatim>\<open>magnitude\<close> of \<^verbatim>\<open>core/geometry.py\<close>, the Euclidean norm.\<close>

definition magnitude :: "Vector3D \<Rightarrow> real" where
  "magnitude v = (case v of (x, y, z) \<Rightarrow> sqrt (x * x + y * y + z * z))"

text \<open>Modelled from the spec: \<^verbatim>\<open>dot_product\<close> of \<^verbatim>\<open>core/geometry.py\<close>, the standard definition.\<close>

definition dot_product :: "Vector3D \<Rightarrow> Vector3D \<Rightarrow> real" where
  "dot_product a b = (case (a, b) of ((a0, a1, a2), (b0, b1, b2)) \<Rightarrow> a0 * b0 + a1 * b1 + a2 * b2)"

text \<open>Modelled from the spec: \<^verbatim>\<open>cross_product\<close> of \<^verbatim>\<open>core/geometry.py\<close>, the standard definition.\<close>

definition cross_product :: "Vector3D \<Rightarrow> Vector3D \<Rightarrow> Vector3D" where
  "cross_product a b = (case (a, b) of ((a0, a1, a2), (b0, b1, b2)) \<Rightarrow>
     (a1 * b2 - a2 * b1, a2 * b0 - a0 * b2, a0 * b1 - a1 * b0))"

text \<open>
  Modelled from the spec: \<^verbatim>\<open>distance_between_points\<close> of \<^verbatim>\<open>core/geometry.py\<close>, the
  Euclidean distance of two points.
\<close>

definition distance_between_points :: "Point3D \<Rightarrow> Point3D \<Rightarrow> real" where
  "distance_between_points p q = (case (p, q) of ((p0, p1, p2), (q0, q1, q2)) \<Rightarrow>
     sqrt ((q0 - p0) * (q0 - p0) + (q1 - p1) * (q1 - p1) + (q2 - p2) * (q2 - p2)))"

text \<open>
  Modelled from the spec: the tolerance of \<^verbatim>\<open>core/geometry.py\<close> below which a vector is
  degenerate, \<^verbatim>\<open>1e-10\<close>.
\<close>

definition ZERO_MAGNITUDE_TOLERANCE :: real where
  "ZERO_MAGNITUDE_TOLERANCE = 1 / 10 ^ 10"

text \<open>
  Python's \<^verbatim>\<open>math.atan2\<close>, \<^verbatim>\<open>math.degrees\<close> and \<^verbatim>\<open>math.radians\<close>, over the reals.
\<close>

definition atan2 :: "real \<Rightarrow> real \<Rightarrow> real" where
  "atan2 y x =
     (if x > 0 then arctan (y / x)
      else if x < 0 \<and> y \<ge> 0 then arctan (y / x) + pi
      else if x < 0 then arctan (y / x) - pi
      else if y > 0 then pi / 2
      else if y < 0 then - pi / 2
      else 0)"

definition degrees :: "real \<Rightarrow> real" where
  "degrees x = x * 180 / pi"

definition radians :: "real \<Rightarrow> real" where
  "radians x = x * pi / 180"

text \<open>
  Modelled from the spec: \<^verbatim>\<open>angle_between_vectors\<close> of \<^verbatim>\<open>core/geometry.py\<close>, the angle in
  degrees as \<^verbatim>\<open>atan2(|a x b|, a . b)\<close>; it fails with a \<^verbatim>\<open>ZeroVectorError\<close> that names
  the operand whose magnitude is below the tolerance.
\<close>

definition angle_between_vectors :: "Vector3D \<Rightarrow> Vector3D \<Rightarrow> error + real" where
  "angle_between_vectors v1 v2 =
     (if magnitude v1 < ZERO_MAGNITUDE_TOLERANCE then Inl (ZeroVectorError First_vector)
      else if magnitude v2 < ZERO_MAGNITUDE_TOLERANCE then Inl (ZeroVectorError Second_vector)
      else Inr (degrees (atan2 (magnitude (cross_product v1 v2)) (dot_product v1 v2))))"

text \<open>
  Modelled from the spec: \<^verbatim>\<open>calculate_rotation\<close> of \<^verbatim>\<open>core/geometry.py\<close>, the angle
  between two plane normals by the same formula, failing with a \<^verbatim>\<open>ZeroVectorError\<close> when
  a normal is degenerate.
\<close>

definition calculate_rotation :: "Vector3D \<Rightarrow> Vector3D \<Rightarrow> error + real" where
  "calculate_rotation n1 n2 = angle_between_vectors n1 n2"

section \<open>Formatting an integer (Python's \<^verbatim>\<open>str\<close> of an \<^verbatim>\<open>int\<close>, as f-strings use it)\<close>

definition digit_char :: "nat \<Rightarrow> char" where
  "digit_char d = ''0123456789'' ! d"

fun str_nat :: "nat \<Rightarrow> string" where
  "str_nat n = (if n < 10 then [digit_char n] else str_nat (n div 10) @ [digit_char (n mod 10)])"

declare str_nat.simps [simp del]

definition str_int :: "int \<Rightarrow> string" where
  "str_int i = (if i < 0 then CHR ''-'' # str_nat (nat (- i)) else str_nat (nat i))"

section \<open>Straights and bends (\<^verbatim>\<open>calculate_straights_and_bends\<close>)\<close>

definition get_sketch_entity_endpoints :: "SketchLine \<Rightarrow> Point3D \<times> Point3D" where
  "get_sketch_entity_endpoints entity = (startSketchPoint entity, endSketchPoint entity)"

text \<open>The two \<^verbatim>\<open>ValueError\<close>s of \<^verbatim>\<open>calculate_straights_and_bends\<close>, with their messages.\<close>

definition no_lines_error :: error where
  "no_lines_error = ValueError ''No lines provided - cannot calculate bend data''"

definition insufficient_vectors_error :: "nat \<Rightarrow> nat \<Rightarrow> error" where
  "insufficient_vectors_error n_vectors n_arcs =
     ValueError (''Insufficient vectors ('' @ str_int (int n_vectors) @ '') for ''
       @ str_int (int n_arcs) @ '' arcs - expected at least arcs + 1 vectors'')"

text \<open>
  One step of the orientation: the pair is reversed when its second point is strictly nearer
  to the reference point than its first.
\<close>

definition orient :: "Point3D \<Rightarrow> Point3D \<times> Point3D \<Rightarrow> Point3D \<times> Point3D" where
  "orient ref lp = (case lp of (curr_start, curr_end) \<Rightarrow>
     if distance_between_points curr_end ref < distance_between_points curr_start ref
     then (curr_end, curr_start) else (curr_start, curr_end))"

text \<open>
  The loop over the remaining lines, \<^verbatim>\<open>for i in range(1, len(line_points))\<close>; the first
  argument is \<^verbatim>\<open>corrected[i - 1][1]\<close>.
\<close>

fun orient_remaining :: "Point3D \<Rightarrow> (Point3D \<times> Point3D) list \<Rightarrow> (Point3D \<times> Point3D) list" where
  "orient_remaining prev_end [] = []"
| "orient_remaining prev_end (lp # rest) =
     (let c = orient prev_end lp in c # orient_remaining (snd c) rest)"

text \<open>The list \<^verbatim>\<open>corrected\<close> for a non-empty list of line points.\<close>

definition corrected_points :: "Point3D \<Rightarrow> (Point3D \<times> Point3D) list \<Rightarrow> (Point3D \<times> Point3D) list" where
  "corrected_points path_start line_points =
     (case line_points of
        [] \<Rightarrow> []
      | first # rest \<Rightarrow> (let c = orient path_start first in c # orient_remaining (snd c) rest))"

definition vector_of :: "Point3D \<times> Point3D \<Rightarrow> Vector3D" where
  "vector_of se = (case se of (start, end_pt) \<Rightarrow>
     (component end_pt 0 - component start 0, component end_pt 1 - component start 1,
      component end_pt 2 - component start 2))"

definition scale_point :: "UnitConfig \<Rightarrow> Point3D \<Rightarrow> Point3D" where
  "scale_point units p = (component p 0 * cm_to_unit units, component p 1 * cm_to_unit units,
     component p 2 * cm_to_unit units)"

text \<open>The loop \<^verbatim>\<open>for i, (start, end) in enumerate(corrected)\<close>, from index \<open>i\<close> on.\<close>

fun build_straights :: "UnitConfig \<Rightarrow> nat \<Rightarrow> (Point3D \<times> Point3D) list \<Rightarrow> StraightSection list" where
  "build_straights units i [] = []"
| "build_straights units i (se # rest) =
     (let vector = vector_of se;
          length_cm = magnitude vector;
          length_display = length_cm * cm_to_unit units
      in \<lparr>ss_number = int i + 1, ss_length = length_display,
          ss_start = scale_point units (fst se), ss_end = scale_point units (snd se),
          ss_vector = vector\<rparr> # build_straights units (Suc i) rest)"

text \<open>The loop \<^verbatim>\<open>for i in range(len(arcs))\<close> that collects the normals.\<close>

definition bend_normals :: "Vector3D list \<Rightarrow> nat \<Rightarrow> Vector3D list" where
  "bend_normals vectors n_arcs = map (\<lambda>i. cross_product (vectors ! i) (vectors ! (i + 1))) [0..<n_arcs]"

text \<open>
  The loop \<^verbatim>\<open>for i in range(len(arcs))\<close> that builds the bends, from index \<open>i\<close> on with
  \<open>k\<close> iterations left; an exception of the vector math ends it.
\<close>

fun build_bends :: "real \<Rightarrow> Vector3D list \<Rightarrow> Vector3D list \<Rightarrow> nat \<Rightarrow> nat \<Rightarrow> error + BendData list" where
  "build_bends clr vectors normals i 0 = Inr []"
| "build_bends clr vectors normals i (Suc k) =
     (case angle_between_vectors (vectors ! i) (vectors ! (i + 1)) of
        Inl e \<Rightarrow> Inl e
      | Inr bend_angle \<Rightarrow>
          let arc_length = clr * radians bend_angle in
          (case (if i > 0 then map_sum id Some (calculate_rotation (normals ! (i - 1)) (normals ! i))
                 else Inr None) of
             Inl e \<Rightarrow> Inl e
           | Inr rotation \<Rightarrow>
               (case build_bends clr vectors normals (Suc i) k of
                  Inl e \<Rightarrow> Inl e
                | Inr bends \<Rightarrow>
                    Inr (\<lparr>bd_number = int i + 1, bd_angle = bend_angle, bd_rotation = rotation,
                          bd_arc_length = arc_length\<rparr> # bends))))"

definition calculate_straights_and_bends ::
  "SketchLine list \<Rightarrow> SketchArc list \<Rightarrow> Point3D \<Rightarrow> real \<Rightarrow> UnitConfig
    \<Rightarrow> error + (StraightSection list \<times> BendData list)" where
  "calculate_straights_and_bends lines arcs path_start clr units =
     (let line_points = map get_sketch_entity_endpoints lines in
      if line_points = [] then Inl no_lines_error
      else
        let corrected = corrected_points path_start line_points;
            straights = build_straights units 0 corrected;
            vectors = map vector_of corrected
        in if length vectors < length arcs + 1
           then Inl (insufficient_vectors_error (length vectors) (length arcs))
           else
             let normals = bend_normals vectors (length arcs) in
             (case build_bends clr vectors normals 0 (length arcs) of
                Inl e \<Rightarrow> Inl e
              | Inr bends \<Rightarrow> Inr (straights, bends)))"

section \<open>Segments and marks (\<^verbatim>\<open>build_segments_and_marks\<close>)\<close>

text \<open>
  The loop \<^verbatim>\<open>for i, straight in enumerate(straights)\<close>, from index \<open>i\<close> on, with the
  running offset \<^verbatim>\<open>cumulative\<close>; the result is what the loop appends to \<^verbatim>\<open>segments\<close>.
\<close>

fun build_segments :: "BendData list \<Rightarrow> nat \<Rightarrow> StraightSection list \<Rightarrow> real \<Rightarrow> PathSegment list" where
  "build_segments bends i [] cumulative = []"
| "build_segments bends i (s # rest) cumulative =
     (let seg = \<lparr>ps_segment_type = straight, ps_name = ''Straight '' @ str_int (ss_number s),
                 ps_length = ss_length s, ps_starts_at = cumulative,
                 ps_ends_at = cumulative + ss_length s, ps_bend_angle = None,
                 ps_rotation = (if i < length bends then bd_rotation (bends ! i) else None)\<rparr>;
          cumulative = cumulative + ss_length s
      in if i < length bends then
           let b = bends ! i;
               bseg = \<lparr>ps_segment_type = bend, ps_name = ''BEND '' @ str_int (bd_number b),
                        ps_length = bd_arc_length b, ps_starts_at = cumulative,
                        ps_ends_at = cumulative + bd_arc_length b, ps_bend_angle = Some (bd_angle b),
                        ps_rotation = None\<rparr>
           in seg # bseg # build_segments bends (Suc i) rest (cumulative + bd_arc_length b)
         else seg # build_segments bends (Suc i) rest cumulative)"

text \<open>
  The inner loop of the mark positions: the start of the first bend segment of the given
  name, \<^verbatim>\<open>0.0\<close> when there is none.
\<close>

fun find_bend_start :: "string \<Rightarrow> PathSegment list \<Rightarrow> real" where
  "find_bend_start nm [] = 0"
| "find_bend_start nm (seg # segs) =
     (if ps_segment_type seg = bend \<and> ps_name seg = nm then ps_starts_at seg
      else find_bend_start nm segs)"

definition mark_of :: "PathSegment list \<Rightarrow> real \<Rightarrow> BendData \<Rightarrow> MarkPosition" where
  "mark_of segments die_offset b =
     (let bend_starts_at = find_bend_start (''BEND '' @ str_int (bd_number b)) segments
      in \<lparr>mp_bend_num = bd_number b, mp_mark_position = bend_starts_at - die_offset,
          mp_bend_angle = bd_angle b, mp_rotation = bd_rotation b\<rparr>)"

definition build_segments_and_marks ::
  "StraightSection list \<Rightarrow> BendData list \<Rightarrow> real \<Rightarrow> real \<Rightarrow> PathSegment list \<times> MarkPosition list" where
  "build_segments_and_marks straights bends extra_material die_offset =
     (let segments = build_segments bends 0 straights extra_material;
          mark_positions = map (mark_of segments die_offset) bends
      in (segments, mark_positions))"

section \<open>The generator (\<^verbatim>\<open>commands/createBendSheet/bend_sheet_generator.py\<close>)\<close>

text \<open>
  \<^verbatim>\<open>BendSheetParams\<close> (\<^verbatim>\<open>input_parser.py\<close>), with the attributes that \<^verbatim>\<open>generate\<close> reads,
  and \<^verbatim>\<open>BendSheetData\<close>, with the fields that \<^verbatim>\<open>generate\<close> fills in.
\<close>

record BendSheetParams =
  p_tube_od :: real
  p_die_offset :: real
  p_precision :: int
  p_min_grip :: real
  p_min_tail :: real
  p_bender_name :: string
  p_die_name :: string

record BendSheetData =
  sd_component_name :: string
  sd_tube_od :: real
  sd_clr :: real
  sd_die_offset :: real
  sd_precision :: int
  sd_min_grip :: real
  sd_travel_direction :: string
  sd_starts_with_arc :: bool
  sd_ends_with_arc :: bool
  sd_clr_mismatch :: bool
  sd_clr_values :: "real list"
  sd_continuity_errors :: "string list"
  sd_straights :: "StraightSection list"
  sd_bends :: "BendData list"
  sd_segments :: "PathSegment list"
  sd_mark_positions :: "MarkPosition list"
  sd_extra_material :: real
  sd_total_centerline :: real
  sd_total_cut_length :: real
  sd_units :: UnitConfig
  sd_bender_name :: string
  sd_die_name :: string
  sd_grip_violations :: "int list"
  sd_min_tail :: real
  sd_tail_violation :: bool

record GenerationResult =
  gr_success :: bool
  gr_data :: "BendSheetData option"
  gr_error :: string

text \<open>
  Python's \<^verbatim>\<open>sum\<close>: the items are added one after the other, from left to right,
  starting from 0.
\<close>

definition py_sum :: "real list \<Rightarrow> real" where
  "py_sum xs = foldl (+) 0 xs"

text \<open>The two list comprehensions that pick the entities of the lines and of the arcs.\<close>

fun line_entities :: "PathElement list \<Rightarrow> SketchLine list" where
  "line_entities [] = []"
| "line_entities (line l # es) = l # line_entities es"
| "line_entities (arc a # es) = line_entities es"

fun arc_entities :: "PathElement list \<Rightarrow> SketchArc list" where
  "arc_entities [] = []"
| "arc_entities (line l # es) = arc_entities es"
| "arc_entities (arc a # es) = a # arc_entities es"

text \<open>
  \<^verbatim>\<open>BendSheetGenerator.generate\<close>; the first argument is the generator's \<^verbatim>\<open>self._units\<close>.
  \<open>Inl\<close> is an exception that leaves \<^verbatim>\<open>generate\<close>, which catches none; \<open>Inr\<close> is the
  returned \<^verbatim>\<open>GenerationResult\<close>.
\<close>

definition generate ::
  "UnitConfig \<Rightarrow> PathElement list \<Rightarrow> Point3D \<Rightarrow> BendSheetParams \<Rightarrow> string \<Rightarrow> string \<Rightarrow> bool \<Rightarrow> bool
    \<Rightarrow> error + GenerationResult" where
  "generate units ordered_path start_point params component_name travel_direction
      starts_with_arc ends_with_arc =
     (let lines = line_entities ordered_path;
          arcs = arc_entities ordered_path;
          (clr, clr_mismatch, clr_values) = validate_clr_consistency arcs units
      in case calculate_straights_and_bends lines arcs start_point clr units of
           Inl e \<Rightarrow> Inl e
         | Inr (straights, bends) \<Rightarrow>
             (case straights of
                [] \<Rightarrow> Inr \<lparr>gr_success = False, gr_data = None,
                  gr_error = ''No straight sections found in path. Cannot generate bend sheet.''\<rparr>
              | first_straight # _ \<Rightarrow>
                  let first_feed = ss_length first_straight - p_die_offset params;
                      extra_material = (if p_min_grip params > 0
                                        then max 0 (p_min_grip params - first_feed) else 0);
                      grip_violations =
                        (if p_min_grip params > 0 \<and> length straights > 1
                         then map ss_number
                                (filter (\<lambda>s. ss_length s < p_min_grip params) (butlast straights))
                         else []);
                      tail_violation =
                        (if p_min_tail params > 0 \<and> length straights > 0
                         then (if ss_length (last straights) < p_min_tail params then True else False)
                         else False);
                      (segments, mark_positions) =
                        build_segments_and_marks straights bends extra_material (p_die_offset params);
                      total_straights = py_sum (map ss_length straights);
                      total_arcs = py_sum (map bd_arc_length bends);
                      total_centerline = total_straights + total_arcs;
                      total_cut_length = total_centerline + extra_material;
                      sheet_data = \<lparr>sd_component_name = component_name,
                        sd_tube_od = p_tube_od params, sd_clr = clr,
                        sd_die_offset = p_die_offset params, sd_precision = p_precision params,
                        sd_min_grip = p_min_grip params, sd_travel_direction = travel_direction,
                        sd_starts_with_arc = starts_with_arc, sd_ends_with_arc = ends_with_arc,
                        sd_clr_mismatch = clr_mismatch, sd_clr_values = clr_values,
                        sd_continuity_errors = [], sd_straights = straights, sd_bends = bends,
                        sd_segments = segments, sd_mark_positions = mark_positions,
                        sd_extra_material = extra_material, sd_total_centerline = total_centerline,
                        sd_total_cut_length = total_cut_length, sd_units = units,
                        sd_bender_name = p_bender_name params, sd_die_name = p_die_name params,
                        sd_grip_violations = grip_violations, sd_min_tail = p_min_tail params,
                        sd_tail_violation = tail_violation\<rparr>
                  in Inr \<lparr>gr_success = True, gr_data = Some sheet_data, gr_error = ''''\<rparr>))"

section \<open>Example inputs\<close>

text \<open>
  The straight sections that the tests of \<^verbatim>\<open>build_segments_and_marks\<close> use
  (\<^verbatim>\<open>make_straight\<close> in \<^verbatim>\<open>tests/test_calculations.py\<close>).
\<close>

definition make_straight :: "int \<Rightarrow> real \<Rightarrow> StraightSection" where
  "make_straight num len = \<lparr>ss_number = num, ss_length = len, ss_start = (0, 0, 0),
     ss_end = (len, 0, 0), ss_vector = (len, 0, 0)\<rparr>"

text \<open>
  A small tube for the examples: three unit straights along X, Y and Z from the origin's
  side, joined by two arcs of radius 1 cm. The second line is stored end first.
\<close>

definition sketch_line :: "Point3D \<Rightarrow> Point3D \<Rightarrow> SketchLine" where
  "sketch_line p q = \<lparr>startSketchPoint = p, endSketchPoint = q\<rparr>"

definition example_lines :: "SketchLine list" where
  "example_lines = [sketch_line (0, 0, 0) (1, 0, 0), sketch_line (2, 2, 0) (2, 1, 0),
     sketch_line (2, 3, 1) (2, 3, 2)]"

definition example_arcs :: "SketchArc list" where
  "example_arcs =
     [\<lparr>arcStartSketchPoint = (1, 0, 0), arcEndSketchPoint = (2, 1, 0), radius = 1\<rparr>,
      \<lparr>arcStartSketchPoint = (2, 2, 0), arcEndSketchPoint = (2, 3, 1), radius = 1\<rparr>]"

definition example_path :: "PathElement list" where
  "example_path = [line (example_lines ! 0), arc (example_arcs ! 0), line (example_lines ! 1),
     arc (example_arcs ! 1), line (example_lines ! 2)]"

text \<open>
  A tube of one straight, 1 cm long, generated with a minimum grip of 3 and no die offset:
  the parameters, and the sheet that \<^verbatim>\<open>generate\<close> returns for it.
\<close>

definition example_params :: BendSheetParams where
  "example_params = \<lparr>p_tube_od = 1, p_die_offset = 0, p_precision = 1, p_min_grip = 3,
     p_min_tail = 0, p_bender_name = ''Bender'', p_die_name = ''Die''\<rparr>"

definition example_single_sheet :: BendSheetData where
  "example_single_sheet = \<lparr>sd_component_name = ''part'',
     sd_tube_od = 1, sd_clr = 0, sd_die_offset = 0, sd_precision = 1, sd_min_grip = 3,
     sd_travel_direction = ''+X'', sd_starts_with_arc = False, sd_ends_with_arc = False,
     sd_clr_mismatch = False, sd_clr_values = [], sd_continuity_errors = [],
     sd_straights = [\<lparr>ss_number = 1, ss_length = 1, ss_start = (0, 0, 0), ss_end = (1, 0, 0),
       ss_vector = (1, 0, 0)\<rparr>],
     sd_bends = [],
     sd_segments = [\<lparr>ps_segment_type = straight, ps_name = ''Straight 1'', ps_length = 1,
       ps_starts_at = 2, ps_ends_at = 3, ps_bend_angle = None, ps_rotation = None\<rparr>],
     sd_mark_positions = [], sd_extra_material = 2, sd_total_centerline = 1,
     sd_total_cut_length = 3, sd_units = cm_units, sd_bender_name = ''Bender'',
     sd_die_name = ''Die'', sd_grip_violations = [], sd_min_tail = 0,
     sd_tail_violation = False\<rparr>"

text \<open>Parameters for the example tube: the grip and the tail are both too short.\<close>

definition example_tube_params :: BendSheetParams where
  "example_tube_params = \<lparr>p_tube_od = 1, p_die_offset = 0.5, p_precision = 1, p_min_grip = 3,
     p_min_tail = 2, p_bender_name = ''Bender'', p_die_name = ''Die''\<rparr>"

text \<open>Two bends that carry the same number, for a timeline of three unit straights.\<close>

definition same_number_bends :: "BendData list" where
  "same_number_bends =
     [\<lparr>bd_number = 1, bd_angle = 45, bd_rotation = None, bd_arc_length = 1\<rparr>,
      \<lparr>bd_number = 1, bd_angle = 90, bd_rotation = None, bd_arc_length = 2\<rparr>]"

text \<open>The straights and bends of \<^verbatim>\<open>test_multi_bend_path\<close>.\<close>

definition multi_bend_straights :: "StraightSection list" where
  "multi_bend_straights = [make_straight 1 10, make_straight 2 8, make_straight 3 12]"

definition multi_bend_bends :: "BendData list" where
  "multi_bend_bends =
     [\<lparr>bd_number = 1, bd_angle = 45, bd_rotation = None, bd_arc_length = 4\<rparr>,
      \<lparr>bd_number = 2, bd_angle = 90, bd_rotation = Some 30, bd_arc_length = 6\<rparr>]"

text \<open>The straights and bends that the calculation returns for the example tube, with CLR 1.\<close>

definition example_straights :: "StraightSection list" where
  "example_straights =
     [\<lparr>ss_number = 1, ss_length = 1, ss_start = (0, 0, 0), ss_end = (1, 0, 0), ss_vector = (1, 0, 0)\<rparr>,
      \<lparr>ss_number = 2, ss_length = 1, ss_start = (2, 1, 0), ss_end = (2, 2, 0), ss_vector = (0, 1, 0)\<rparr>,
      \<lparr>ss_number = 3, ss_length = 1, ss_start = (2, 3, 1), ss_end = (2, 3, 2), ss_vector = (0, 0, 1)\<rparr>]"

definition example_bends :: "BendData list" where
  "example_bends =
     [\<lparr>bd_number = 1, bd_angle = 90, bd_rotation = None, bd_arc_length = 1 * radians 90\<rparr>,
      \<lparr>bd_number = 2, bd_angle = 90, bd_rotation = Some 90, bd_arc_length = 1 * radians 90\<rparr>]"

section \<open>Stored endpoint order\<close>

text \<open>The same line with its two endpoints stored in the other order.\<close>

definition swap_endpoints :: "SketchLine \<Rightarrow> SketchLine" where
  "swap_endpoints l = \<lparr>startSketchPoint = endSketchPoint l, endSketchPoint = startSketchPoint l\<rparr>"

text \<open>
  Every line's two endpoints lie at different distances from its reference point: the given
  point for the first line, the end of the previous corrected line for each later one.
\<close>

fun distinct_distances :: "Point3D \<Rightarrow> (Point3D \<times> Point3D) list \<Rightarrow> bool" where
  "distinct_distances ref [] = True"
| "distinct_distances ref (lp # rest) =
     (distance_between_points (fst lp) ref \<noteq> distance_between_points (snd lp) ref
      \<and> distinct_distances (snd (orient ref lp)) rest)"

section \<open>Properties\<close>

subsection \<open>Primary axis\<close>

lemma three: "(\<forall>j<3. P j) = (P (0::nat) \<and> P 1 \<and> P 2)"
  by (auto simp: numeral_3_eq_3 numeral_2_eq_2 less_Suc_eq)

lemma component_simps:
  "component (x, y, z) 0 = x" "component (x, y, z) 1 = y" "component (x, y, z) 2 = z"
  "component (x, y, z) (Suc 0) = y"
  by (simp_all add: component_def)

lemma first_max_conv:
  fixes a b c :: real
  shows "(a = max a (max b c)) = (b \<le> a \<and> c \<le> a)"
    and "(b = max a (max b c)) = (a \<le> b \<and> c \<le> b)"
  by (auto simp: max_def)

lemma dpa_unfold:
  "determine_primary_axis (sx, sy, sz) (ex, ey, ez) =
    (case (if \<bar>ey - sy\<bar> \<le> \<bar>ex - sx\<bar> \<and> \<bar>ez - sz\<bar> \<le> \<bar>ex - sx\<bar> then (''X'', 0)
           else if \<bar>ex - sx\<bar> \<le> \<bar>ey - sy\<bar> \<and> \<bar>ez - sz\<bar> \<le> \<bar>ey - sy\<bar> then (''Y'', 1)
           else (''Z'', 2)) of
      (axis, idx) \<Rightarrow>
        (axis, idx,
         if component (ex - sx, ey - sy, ez - sz) idx > 0 then ''+'' @ axis else ''-'' @ axis,
         if component (ex - sx, ey - sy, ez - sz) idx > 0 then ''-'' @ axis else ''+'' @ axis))"
  unfolding determine_primary_axis_def Let_def component_simps first_max_conv ..

lemma dpa_X:
  assumes "\<bar>ey - sy\<bar> \<le> \<bar>ex - sx\<bar> \<and> \<bar>ez - sz\<bar> \<le> \<bar>ex - sx\<bar>"
  shows "determine_primary_axis (sx, sy, sz) (ex, ey, ez) =
    (''X'', 0, if ex - sx > 0 then ''+X'' else ''-X'', if ex - sx > 0 then ''-X'' else ''+X'')"
  unfolding dpa_unfold if_P [OF assms] by (simp add: component_simps)

lemma dpa_Y:
  assumes "\<not> (\<bar>ey - sy\<bar> \<le> \<bar>ex - sx\<bar> \<and> \<bar>ez - sz\<bar> \<le> \<bar>ex - sx\<bar>)"
    and "\<bar>ex - sx\<bar> \<le> \<bar>ey - sy\<bar> \<and> \<bar>ez - sz\<bar> \<le> \<bar>ey - sy\<bar>"
  shows "determine_primary_axis (sx, sy, sz) (ex, ey, ez) =
    (''Y'', 1, if ey - sy > 0 then ''+Y'' else ''-Y'', if ey - sy > 0 then ''-Y'' else ''+Y'')"
  unfolding dpa_unfold if_not_P [OF assms(1)] if_P [OF assms(2)]
  by (simp add: component_simps)

lemma dpa_Z:
  assumes "\<not> (\<bar>ey - sy\<bar> \<le> \<bar>ex - sx\<bar> \<and> \<bar>ez - sz\<bar> \<le> \<bar>ex - sx\<bar>)"
    and "\<not> (\<bar>ex - sx\<bar> \<le> \<bar>ey - sy\<bar> \<and> \<bar>ez - sz\<bar> \<le> \<bar>ey - sy\<bar>)"
  shows "determine_primary_axis (sx, sy, sz) (ex, ey, ez) =
    (''Z'', 2, if ez - sz > 0 then ''+Z'' else ''-Z'', if ez - sz > 0 then ''-Z'' else ''+Z'')"
  unfolding dpa_unfold if_not_P [OF assms(1)] if_not_P [OF assms(2)]
  by (simp add: component_simps)


text \<open>
  C9. For every start and end point, \<^verbatim>\<open>determine_primary_axis\<close> returns the index of the
  first axis (in the order X, Y, Z) whose absolute displacement is the greatest of the three,
  with the name of that axis; the current direction is \<^verbatim>\<open>+axis\<close> when the displacement
  along it is positive and \<^verbatim>\<open>-axis\<close> otherwise, the opposite direction is the other label;
  a displacement of exactly zero gives the X axis.
\<close>

theorem determine_primary_axis_greatest:
  fixes start end_pt :: Point3D
  defines "d \<equiv> (\<lambda>i. component end_pt i - component start i)"
  assumes "determine_primary_axis start end_pt = (axis, idx, current, opposite)"
  shows "idx < 3 \<and> axis = [''X'', ''Y'', ''Z''] ! idx
    \<and> (\<forall>j < 3. \<bar>d j\<bar> \<le> \<bar>d idx\<bar>)
    \<and> (\<forall>j < idx. \<bar>d j\<bar> < \<bar>d idx\<bar>)
    \<and> current = (if d idx > 0 then ''+'' @ axis else ''-'' @ axis)
    \<and> opposite = (if d idx > 0 then ''-'' @ axis else ''+'' @ axis)
    \<and> current \<noteq> opposite
    \<and> (d 0 = 0 \<and> d 1 = 0 \<and> d 2 = 0 \<longrightarrow> axis = ''X'' \<and> idx = 0)"
proof -
  obtain sx sy sz where s: "start = (sx, sy, sz)" by (cases start) auto
  obtain ex ey ez where e: "end_pt = (ex, ey, ez)" by (cases end_pt) auto
  define a b c where "a = \<bar>ex - sx\<bar>" and "b = \<bar>ey - sy\<bar>" and "c = \<bar>ez - sz\<bar>"
  have d0: "d 0 = ex - sx" and d1: "d 1 = ey - sy" and d2: "d 2 = ez - sz" and d1': "d (Suc 0) = ey - sy"
    by (simp_all add: d_def s e component_simps)
  have abs0: "d 0 = 0 \<Longrightarrow> a = 0" "d 1 = 0 \<Longrightarrow> b = 0" "d 2 = 0 \<Longrightarrow> c = 0"
    by (simp_all add: d0 d1 d1' d2 a_def b_def c_def)
  have lt1: "\<And>P. (\<forall>j<(1::nat). P j) = P 0" by simp
  have lt2: "\<And>P. (\<forall>j<(2::nat). P j) = (P 0 \<and> P 1)"
    by (auto simp: numeral_2_eq_2 less_Suc_eq)
  consider (X) "b \<le> a \<and> c \<le> a"
    | (Y) "\<not> (b \<le> a \<and> c \<le> a)" "a \<le> b \<and> c \<le> b"
    | (Z) "\<not> (b \<le> a \<and> c \<le> a)" "\<not> (a \<le> b \<and> c \<le> b)"
    by blast
  then show ?thesis
  proof cases
    case X
    from dpa_X [OF X [unfolded a_def b_def c_def]] assms(2)
    have r: "axis = ''X''" "idx = 0" "current = (if ex - sx > 0 then ''+X'' else ''-X'')"
      "opposite = (if ex - sx > 0 then ''-X'' else ''+X'')"
      by (simp_all add: s e)
    show ?thesis unfolding three r d0 d1 d2 using X
      by (simp add: a_def b_def c_def)
  next
    case Y
    from dpa_Y [OF Y [unfolded a_def b_def c_def]] assms(2)
    have r: "axis = ''Y''" "idx = 1" "current = (if ey - sy > 0 then ''+Y'' else ''-Y'')"
      "opposite = (if ey - sy > 0 then ''-Y'' else ''+Y'')"
      by (simp_all add: s e)
    have "a < b" using Y by linarith
    moreover have "\<not> (d 0 = 0 \<and> d 1 = 0 \<and> d 2 = 0)" using abs0 Y(1) by auto
    ultimately show ?thesis unfolding three r lt1 d0 d1 d2 using Y
      by (simp add: a_def b_def c_def)
  next
    case Z
    from dpa_Z [OF Z [unfolded a_def b_def c_def]] assms(2)
    have r: "axis = ''Z''" "idx = 2" "current = (if ez - sz > 0 then ''+Z'' else ''-Z'')"
      "opposite = (if ez - sz > 0 then ''-Z'' else ''+Z'')"
      by (simp_all add: s e)
    have "a < c" "b < c" using Z by linarith+
    moreover have "\<not> (d 0 = 0 \<and> d 1 = 0 \<and> d 2 = 0)" using abs0 Z(1) by auto
    ultimately show ?thesis unfolding three r lt2 d0 d1 d2
      by (simp add: a_def b_def c_def)
  qed
qed

theorem determine_primary_axis_greatest_witness:
  "determine_primary_axis (0, 0, 0) (-10, 10, 0) = (''X'', 0, ''-X'', ''+X'')
   \<and> determine_primary_axis (5, 5, 5) (5, 5, 5) = (''X'', 0, ''-X'', ''+X'')
   \<and> determine_primary_axis (0, 0, 0) (1, -3, 3) = (''Y'', 1, ''-Y'', ''+Y'')
   \<and> \<bar>component (1, -3, 3) 0 - component (0, 0, 0) 0\<bar>
         < \<bar>component (1, -3, 3) 1 - component (0, 0, 0) 1\<bar>"
proof -
  have a: "determine_primary_axis (0, 0, 0) (-10, 10, 0) = (''X'', 0, ''-X'', ''+X'')"
    by (simp add: dpa_X)
  have b: "determine_primary_axis (5, 5, 5) (5, 5, 5) = (''X'', 0, ''-X'', ''+X'')"
    by (simp add: dpa_X)
  have c: "determine_primary_axis (0, 0, 0) (1, -3, 3) = (''Y'', 1, ''-Y'', ''+Y'')"
    by (simp add: dpa_Y)
  from determine_primary_axis_greatest [OF c] a b c show ?thesis by simp
qed


subsection \<open>CLR validation\<close>

lemma validate_clr_consistency_Nil:
  "validate_clr_consistency [] units = (0, False, [])"
  by (simp add: validate_clr_consistency_def)

lemma validate_clr_consistency_Cons:
  "validate_clr_consistency (a # arcs) units =
     (let vals = map (\<lambda>a. radius a * cm_to_unit units) (a # arcs); clr = radius a * cm_to_unit units
      in (if clr \<le> 0 then 0 else clr,
          clr \<le> 0 \<or> (\<exists>c\<in>set vals. \<bar>c - clr\<bar> > max (clr * 0.002) 0.001),
          vals))"
  by (simp add: validate_clr_consistency_def Let_def CLR_TOLERANCE_RATIO_def list_ex_iff)

lemma validate_clr_consistency_two:
  "validate_clr_consistency [arc_of_radius r1, arc_of_radius r2] cm_units =
     (if r1 \<le> 0 then (0, True, [r1, r2])
      else (r1, \<bar>r2 - r1\<bar> > max (r1 * 0.002) 0.001, [r1, r2]))"
  by (simp add: validate_clr_consistency_def Let_def CLR_TOLERANCE_RATIO_def
      arc_of_radius_def cm_units_def)

lemma validate_clr_consistency_one:
  "validate_clr_consistency [arc_of_radius r] cm_units =
     (if r \<le> 0 then (0, True, [r]) else (r, False, [r]))"
  by (simp add: validate_clr_consistency_def Let_def CLR_TOLERANCE_RATIO_def
      arc_of_radius_def cm_units_def)

text \<open>
  C3. \<^verbatim>\<open>validate_clr_consistency\<close> returns CLR 0 and no mismatch for no arcs. Otherwise
  the values are the radii in display units, the working CLR is the first value when that is
  positive and 0 when it is not, and the mismatch flag is set exactly when the first value is
  at most 0 or some value differs from the first by more than \<open>max (CLR * 0.002) 0.001\<close>.
  Display radii 5.0 and 5.1 give a mismatch, 5.0 and 5.005 give none, 0.01 and 0.0105 give
  none, and a single radius of 0 or below gives a mismatch with working CLR 0.
\<close>

theorem validate_clr_consistency_mismatch:
  fixes arcs :: "SketchArc list" and units :: UnitConfig
  defines "vals \<equiv> map (\<lambda>a. radius a * cm_to_unit units) arcs"
  shows "(arcs = [] \<longrightarrow> validate_clr_consistency arcs units = (0, False, []))
    \<and> (arcs \<noteq> [] \<longrightarrow>
         validate_clr_consistency arcs units =
           (if hd vals \<le> 0 then 0 else hd vals,
            hd vals \<le> 0 \<or> (\<exists>c\<in>set vals. \<bar>c - hd vals\<bar> > max (hd vals * 0.002) 0.001),
            vals))
    \<and> validate_clr_consistency [arc_of_radius 5.0, arc_of_radius 5.1] cm_units
         = (5.0, True, [5.0, 5.1])
    \<and> validate_clr_consistency [arc_of_radius 5.0, arc_of_radius 5.005] cm_units
         = (5.0, False, [5.0, 5.005])
    \<and> validate_clr_consistency [arc_of_radius 0.01, arc_of_radius 0.0105] cm_units
         = (0.01, False, [0.01, 0.0105])
    \<and> validate_clr_consistency [arc_of_radius 0] cm_units = (0, True, [0])
    \<and> validate_clr_consistency [arc_of_radius (- 1)] cm_units = (0, True, [- 1])"
proof (intro conjI)
  show "arcs = [] \<longrightarrow> validate_clr_consistency arcs units = (0, False, [])"
    by (simp add: validate_clr_consistency_Nil)
  show "arcs \<noteq> [] \<longrightarrow>
         validate_clr_consistency arcs units =
           (if hd vals \<le> 0 then 0 else hd vals,
            hd vals \<le> 0 \<or> (\<exists>c\<in>set vals. \<bar>c - hd vals\<bar> > max (hd vals * 0.002) 0.001),
            vals)"
    unfolding vals_def by (cases arcs) (simp_all add: validate_clr_consistency_Cons Let_def)
  show "validate_clr_consistency [arc_of_radius 5.0, arc_of_radius 5.1] cm_units
         = (5.0, True, [5.0, 5.1])"
    by (simp add: validate_clr_consistency_two)
  show "validate_clr_consistency [arc_of_radius 5.0, arc_of_radius 5.005] cm_units
         = (5.0, False, [5.0, 5.005])"
    by (simp add: validate_clr_consistency_two)
  show "validate_clr_consistency [arc_of_radius 0.01, arc_of_radius 0.0105] cm_units
         = (0.01, False, [0.01, 0.0105])"
    by (simp add: validate_clr_consistency_two)
  show "validate_clr_consistency [arc_of_radius 0] cm_units = (0, True, [0])"
    by (simp add: validate_clr_consistency_one)
  show "validate_clr_consistency [arc_of_radius (- 1)] cm_units = (0, True, [- 1])"
    by (simp add: validate_clr_consistency_one)
qed

theorem validate_clr_consistency_mismatch_witness:
  "[arc_of_radius 5.0, arc_of_radius 5.3] \<noteq> []
   \<and> fst (validate_clr_consistency [arc_of_radius 5.0, arc_of_radius 5.3] cm_units) = 5
   \<and> snd (snd (validate_clr_consistency [arc_of_radius 5.0, arc_of_radius 5.3] cm_units))
       = [5, 5.3]
   \<and> validate_clr_consistency [] cm_units = (0, False, [])"
proof -
  let ?arcs = "[arc_of_radius 5.0, arc_of_radius 5.3]"
  have ne: "?arcs \<noteq> []" by simp
  note t = validate_clr_consistency_mismatch [of ?arcs cm_units]
  from t have "?arcs \<noteq> [] \<longrightarrow>
      validate_clr_consistency ?arcs cm_units =
        (if hd (map (\<lambda>a. radius a * cm_to_unit cm_units) ?arcs) \<le> 0 then 0
         else hd (map (\<lambda>a. radius a * cm_to_unit cm_units) ?arcs),
         hd (map (\<lambda>a. radius a * cm_to_unit cm_units) ?arcs) \<le> 0
         \<or> (\<exists>c\<in>set (map (\<lambda>a. radius a * cm_to_unit cm_units) ?arcs).
               \<bar>c - hd (map (\<lambda>a. radius a * cm_to_unit cm_units) ?arcs)\<bar>
               > max (hd (map (\<lambda>a. radius a * cm_to_unit cm_units) ?arcs) * 0.002) 0.001),
         map (\<lambda>a. radius a * cm_to_unit cm_units) ?arcs)"
    by (rule conjunct1 [OF conjunct2])
  with ne have eq: "validate_clr_consistency ?arcs cm_units =
        (if hd (map (\<lambda>a. radius a * cm_to_unit cm_units) ?arcs) \<le> 0 then 0
         else hd (map (\<lambda>a. radius a * cm_to_unit cm_units) ?arcs),
         hd (map (\<lambda>a. radius a * cm_to_unit cm_units) ?arcs) \<le> 0
         \<or> (\<exists>c\<in>set (map (\<lambda>a. radius a * cm_to_unit cm_units) ?arcs).
               \<bar>c - hd (map (\<lambda>a. radius a * cm_to_unit cm_units) ?arcs)\<bar>
               > max (hd (map (\<lambda>a. radius a * cm_to_unit cm_units) ?arcs) * 0.002) 0.001),
         map (\<lambda>a. radius a * cm_to_unit cm_units) ?arcs)"
    by (rule mp [rotated])
  have a: "fst (validate_clr_consistency ?arcs cm_units) = 5"
    unfolding eq by (simp add: arc_of_radius_def cm_units_def)
  have b: "snd (snd (validate_clr_consistency ?arcs cm_units)) = [5, 5.3]"
    unfolding eq by (simp add: arc_of_radius_def cm_units_def)
  have c: "validate_clr_consistency [] cm_units = (0, False, [])"
    using validate_clr_consistency_mismatch [of "[]" cm_units] by (rule conjunct1 [THEN mp]) simp
  from ne a b c show ?thesis by blast
qed

subsection \<open>Decimal rendering is injective\<close>

lemma digit_char_inj:
  assumes "a < 10" "b < 10" "digit_char a = digit_char b"
  shows "a = b"
proof -
  have "distinct ''0123456789''" by simp
  moreover have "a < length ''0123456789''" "b < length ''0123456789''"
    using assms by simp_all
  ultimately show ?thesis
    using assms(3) unfolding digit_char_def by (simp only: nth_eq_iff_index_eq)
qed

lemma digit_char_mem: "d < 10 \<Longrightarrow> digit_char d \<in> set ''0123456789''"
  unfolding digit_char_def by (rule nth_mem) simp

lemma str_nat_digits: "set (str_nat n) \<subseteq> set ''0123456789''"
proof (induction n rule: str_nat.induct)
  case (1 n)
  show ?case
  proof (cases "n < 10")
    case True
    then show ?thesis
      using digit_char_mem [of n] by (subst str_nat.simps) simp
  next
    case False
    have "n mod 10 < 10" by simp
    from digit_char_mem [OF this] 1 [OF False] False show ?thesis
      by (subst str_nat.simps) simp
  qed
qed

lemma str_nat_not_Nil: "str_nat n \<noteq> []"
  by (subst str_nat.simps) simp

lemma str_nat_length_small: "n < 10 \<Longrightarrow> length (str_nat n) = 1"
  by (subst str_nat.simps) simp

lemma str_nat_length_large: "\<not> n < 10 \<Longrightarrow> length (str_nat n) \<ge> 2"
proof -
  assume a: "\<not> n < 10"
  have "length (str_nat (n div 10)) \<ge> 1"
    using str_nat_not_Nil [of "n div 10"] by (cases "str_nat (n div 10)") simp_all
  then show ?thesis using a by (subst str_nat.simps) simp
qed

lemma str_nat_inj: "str_nat n = str_nat m \<Longrightarrow> n = m"
proof (induction n arbitrary: m rule: str_nat.induct)
  case (1 n)
  show ?case
  proof (cases "n < 10")
    case True
    have m: "m < 10"
    proof (rule ccontr)
      assume "\<not> m < 10"
      from str_nat_length_large [OF this] str_nat_length_small [OF True] "1.prems"
      show False by simp
    qed
    from "1.prems" have "digit_char n = digit_char m"
      using True m by (simp add: str_nat.simps [of n] str_nat.simps [of m])
    with True m show ?thesis by (rule digit_char_inj)
  next
    case False
    have m: "\<not> m < 10"
    proof
      assume "m < 10"
      from str_nat_length_small [OF this] str_nat_length_large [OF False] "1.prems"
      show False by simp
    qed
    from "1.prems" False m
    have "str_nat (n div 10) @ [digit_char (n mod 10)] = str_nat (m div 10) @ [digit_char (m mod 10)]"
      by (simp add: str_nat.simps [of n] str_nat.simps [of m])
    then have a: "str_nat (n div 10) = str_nat (m div 10)"
      and b: "digit_char (n mod 10) = digit_char (m mod 10)"
      by simp_all
    from "1.IH" [OF False a] have "n div 10 = m div 10" .
    moreover have "n mod 10 = m mod 10"
      by (rule digit_char_inj [OF _ _ b]) simp_all
    ultimately show ?thesis
      by (metis div_mult_mod_eq)
  qed
qed

lemma str_nat_no_minus: "str_nat n \<noteq> CHR ''-'' # cs"
proof
  assume "str_nat n = CHR ''-'' # cs"
  then have "CHR ''-'' \<in> set (str_nat n)" by simp
  with str_nat_digits [of n] show False by auto
qed

lemma str_int_inj: "str_int a = str_int b \<Longrightarrow> a = b"
proof -
  assume eq: "str_int a = str_int b"
  consider (nn) "a < 0" "b < 0" | (np) "a < 0" "\<not> b < 0" | (pn) "\<not> a < 0" "b < 0"
    | (pp) "\<not> a < 0" "\<not> b < 0" by blast
  then show ?thesis
  proof cases
    case nn
    with eq have "str_nat (nat (- a)) = str_nat (nat (- b))" by (simp add: str_int_def)
    from str_nat_inj [OF this] nn show ?thesis by simp
  next
    case np
    with eq str_nat_no_minus [of "nat b" "str_nat (nat (- a))"] show ?thesis
      by (simp add: str_int_def)
  next
    case pn
    with eq str_nat_no_minus [of "nat a" "str_nat (nat (- b))"] show ?thesis
      by (simp add: str_int_def)
  next
    case pp
    with eq have "str_nat (nat a) = str_nat (nat b)" by (simp add: str_int_def)
    from str_nat_inj [OF this] pp show ?thesis by simp
  qed
qed


subsection \<open>The timeline of segments\<close>

lemma build_segments_Cons_bend:
  "i < length bends \<Longrightarrow>
   build_segments bends i (s # rest) c =
     \<lparr>ps_segment_type = straight, ps_name = ''Straight '' @ str_int (ss_number s),
       ps_length = ss_length s, ps_starts_at = c, ps_ends_at = c + ss_length s,
       ps_bend_angle = None, ps_rotation = bd_rotation (bends ! i)\<rparr>
     # \<lparr>ps_segment_type = bend, ps_name = ''BEND '' @ str_int (bd_number (bends ! i)),
         ps_length = bd_arc_length (bends ! i), ps_starts_at = c + ss_length s,
         ps_ends_at = c + ss_length s + bd_arc_length (bends ! i),
         ps_bend_angle = Some (bd_angle (bends ! i)), ps_rotation = None\<rparr>
     # build_segments bends (Suc i) rest (c + ss_length s + bd_arc_length (bends ! i))"
  by (simp add: Let_def)

lemma build_segments_Cons_no_bend:
  "\<not> i < length bends \<Longrightarrow>
   build_segments bends i (s # rest) c =
     \<lparr>ps_segment_type = straight, ps_name = ''Straight '' @ str_int (ss_number s),
       ps_length = ss_length s, ps_starts_at = c, ps_ends_at = c + ss_length s,
       ps_bend_angle = None, ps_rotation = None\<rparr>
     # build_segments bends (Suc i) rest (c + ss_length s)"
  by (simp add: Let_def)

declare build_segments.simps(2) [simp del]







lemma build_segments_and_marks_fst:
  "fst (build_segments_and_marks straights bends extra_material die_offset) =
     build_segments bends 0 straights extra_material"
  by (simp add: build_segments_and_marks_def Let_def)

lemma build_segments_and_marks_snd:
  "snd (build_segments_and_marks straights bends extra_material die_offset) =
     map (mark_of (build_segments bends 0 straights extra_material) die_offset) bends"
  by (simp add: build_segments_and_marks_def Let_def)



subsection \<open>What a successful calculation returns\<close>

lemma orient_remaining_length: "length (orient_remaining p lps) = length lps"
  by (induction lps arbitrary: p) (simp_all add: Let_def)

lemma corrected_points_length: "length (corrected_points p lps) = length lps"
  by (cases lps) (simp_all add: corrected_points_def Let_def orient_remaining_length)

lemma build_straights_length: "length (build_straights units i cs) = length cs"
  by (induction cs arbitrary: i) (simp_all add: Let_def)

lemma build_straights_number:
  "j < length cs \<Longrightarrow> ss_number (build_straights units i cs ! j) = int (i + j) + 1"
proof (induction cs arbitrary: i j)
  case Nil
  then show ?case by simp
next
  case (Cons c cs)
  then show ?case by (cases j) (simp_all add: Let_def)
qed

lemma build_bends_Inr:
  assumes "build_bends clr vs ns i (Suc k) = Inr bs"
  obtains a r rest where "angle_between_vectors (vs ! i) (vs ! (i + 1)) = Inr a"
    and "(if i > 0 then map_sum id Some (calculate_rotation (ns ! (i - 1)) (ns ! i)) else Inr None) = Inr r"
    and "build_bends clr vs ns (Suc i) k = Inr rest"
    and "bs = \<lparr>bd_number = int i + 1, bd_angle = a, bd_rotation = r,
                bd_arc_length = clr * radians a\<rparr> # rest"
  using assms by (auto simp: Let_def split: sum.splits)

lemma build_bends_length: "build_bends clr vs ns i k = Inr bs \<Longrightarrow> length bs = k"
proof (induction k arbitrary: i bs)
  case 0
  then show ?case by simp
next
  case (Suc k)
  from Suc.prems obtain a r rest where
    rest: "build_bends clr vs ns (Suc i) k = Inr rest" and bs: "bs = \<lparr>bd_number = int i + 1,
      bd_angle = a, bd_rotation = r, bd_arc_length = clr * radians a\<rparr> # rest"
    by (rule build_bends_Inr)
  from Suc.IH [OF rest] bs show ?case by simp
qed

lemma build_bends_nth:
  "build_bends clr vs ns i k = Inr bs \<Longrightarrow> j < k \<Longrightarrow>
   bd_number (bs ! j) = int (i + j) + 1 \<and> (bd_rotation (bs ! j) = None) = (i + j = 0)"
proof (induction k arbitrary: i bs j)
  case 0
  then show ?case by simp
next
  case (Suc k)
  from Suc.prems(1) obtain a r rest where
    r: "(if i > 0 then map_sum id Some (calculate_rotation (ns ! (i - 1)) (ns ! i)) else Inr None) = Inr r"
    and rest: "build_bends clr vs ns (Suc i) k = Inr rest"
    and bs: "bs = \<lparr>bd_number = int i + 1, bd_angle = a, bd_rotation = r,
      bd_arc_length = clr * radians a\<rparr> # rest"
    by (rule build_bends_Inr)
  show ?case
  proof (cases j)
    case 0
    have "(r = None) = (i = 0)"
      using r by (cases "calculate_rotation (ns ! (i - 1)) (ns ! i)") (auto split: if_splits)
    with 0 bs show ?thesis by simp
  next
    case (Suc j')
    with Suc.prems(2) have "j' < k" by simp
    from Suc.IH [OF rest this] Suc bs show ?thesis by simp
  qed
qed

lemma calculate_straights_and_bends_Inr:
  assumes "calculate_straights_and_bends lines arcs path_start clr units = Inr (straights, bends)"
  shows "lines \<noteq> []"
    and "length arcs < length lines"
    and "straights = build_straights units 0
           (corrected_points path_start (map get_sketch_entity_endpoints lines))"
    and "build_bends clr
           (map vector_of (corrected_points path_start (map get_sketch_entity_endpoints lines)))
           (bend_normals
             (map vector_of (corrected_points path_start (map get_sketch_entity_endpoints lines)))
             (length arcs)) 0 (length arcs) = Inr bends"
    and "length straights = length lines"
    and "length bends = length arcs"
proof -
  let ?c = "corrected_points path_start (map get_sketch_entity_endpoints lines)"
  from assms show ne: "lines \<noteq> []"
    by (auto simp: calculate_straights_and_bends_def Let_def split: if_splits)
  from assms ne show lt: "length arcs < length lines"
    by (auto simp: calculate_straights_and_bends_def Let_def corrected_points_length
        split: if_splits)
  from assms ne lt show s: "straights = build_straights units 0 ?c"
    by (auto simp: calculate_straights_and_bends_def Let_def corrected_points_length
        split: if_splits sum.splits)
  from assms ne lt show b: "build_bends clr (map vector_of ?c)
      (bend_normals (map vector_of ?c) (length arcs)) 0 (length arcs) = Inr bends"
    by (auto simp: calculate_straights_and_bends_def Let_def corrected_points_length
        split: if_splits sum.splits)
  from s show "length straights = length lines"
    by (simp add: build_straights_length corrected_points_length)
  from b show "length bends = length arcs" by (rule build_bends_length)
qed


subsection \<open>What the generator returns\<close>

lemma generate_Inl:
  assumes "validate_clr_consistency (arc_entities ordered_path) units = (clr, mm, vals)"
    and "calculate_straights_and_bends (line_entities ordered_path) (arc_entities ordered_path)
           start_point clr units = Inl e"
  shows "generate units ordered_path start_point params cn td sa ea = Inl e"
  using assms by (simp add: generate_def)

lemma generate_Inr:
  fixes params :: BendSheetParams and straights :: "StraightSection list"
  assumes v: "validate_clr_consistency (arc_entities ordered_path) units = (clr, mm, vals)"
    and c: "calculate_straights_and_bends (line_entities ordered_path) (arc_entities ordered_path)
           start_point clr units = Inr (straights, bends)"
  defines "extra \<equiv> (if p_min_grip params > 0
      then max 0 (p_min_grip params - (ss_length (hd straights) - p_die_offset params)) else 0)"
  shows "generate units ordered_path start_point params cn td sa ea =
    Inr \<lparr>gr_success = True,
      gr_data = Some \<lparr>sd_component_name = cn,
        sd_tube_od = p_tube_od params, sd_clr = clr,
        sd_die_offset = p_die_offset params, sd_precision = p_precision params,
        sd_min_grip = p_min_grip params, sd_travel_direction = td,
        sd_starts_with_arc = sa, sd_ends_with_arc = ea,
        sd_clr_mismatch = mm, sd_clr_values = vals,
        sd_continuity_errors = [], sd_straights = straights, sd_bends = bends,
        sd_segments = fst (build_segments_and_marks straights bends extra (p_die_offset params)),
        sd_mark_positions = snd (build_segments_and_marks straights bends extra (p_die_offset params)),
        sd_extra_material = extra,
        sd_total_centerline = py_sum (map ss_length straights) + py_sum (map bd_arc_length bends),
        sd_total_cut_length =
          py_sum (map ss_length straights) + py_sum (map bd_arc_length bends) + extra,
        sd_units = units,
        sd_bender_name = p_bender_name params, sd_die_name = p_die_name params,
        sd_grip_violations =
          (if p_min_grip params > 0
           then map ss_number (filter (\<lambda>s. ss_length s < p_min_grip params) (butlast straights))
           else []),
        sd_min_tail = p_min_tail params,
        sd_tail_violation = (p_min_tail params > 0 \<and> ss_length (last straights) < p_min_tail params)\<rparr>,
      gr_error = ''''\<rparr>"
proof -
  from calculate_straights_and_bends_Inr(1,5) [OF c] have "straights \<noteq> []" by auto
  then obtain s rest where s: "straights = s # rest" by (cases straights) auto
  have g: "(if p_min_grip params > 0 \<and> length straights > 1
            then map ss_number (filter (\<lambda>s. ss_length s < p_min_grip params) (butlast straights))
            else []) =
           (if p_min_grip params > 0
            then map ss_number (filter (\<lambda>s. ss_length s < p_min_grip params) (butlast straights))
            else [])"
    unfolding s by (cases rest) simp_all
  show ?thesis
    unfolding generate_def Let_def v c prod.case sum.case g extra_def
    unfolding s list.case
    by (simp add: split_beta)
qed


subsection \<open>The example tube\<close>

lemma magnitude_unit:
  "magnitude (1, 0, 0) = 1" "magnitude (0, 1, 0) = 1" "magnitude (0, 0, 1) = 1"
  by (simp_all add: magnitude_def)

lemma angle_right:
  "angle_between_vectors (1, 0, 0) (0, 1, 0) = Inr 90"
  "angle_between_vectors (0, 1, 0) (0, 0, 1) = Inr 90"
  "angle_between_vectors (0, 0, 1) (1, 0, 0) = Inr 90"
  by (simp_all add: angle_between_vectors_def magnitude_unit ZERO_MAGNITUDE_TOLERANCE_def cross_product_def
      dot_product_def atan2_def degrees_def)

lemma example_corrected:
  "corrected_points (0, 0, 0) (map get_sketch_entity_endpoints example_lines) =
     [((0, 0, 0), (1, 0, 0)), ((2, 1, 0), (2, 2, 0)), ((2, 3, 1), (2, 3, 2))]"
  by (simp add: corrected_points_def example_lines_def sketch_line_def
      get_sketch_entity_endpoints_def orient_def distance_between_points_def Let_def)

lemma example_calc:
  "calculate_straights_and_bends example_lines example_arcs (0, 0, 0) clr cm_units =
     Inr ([\<lparr>ss_number = 1, ss_length = 1, ss_start = (0, 0, 0), ss_end = (1, 0, 0), ss_vector = (1, 0, 0)\<rparr>,
           \<lparr>ss_number = 2, ss_length = 1, ss_start = (2, 1, 0), ss_end = (2, 2, 0), ss_vector = (0, 1, 0)\<rparr>,
           \<lparr>ss_number = 3, ss_length = 1, ss_start = (2, 3, 1), ss_end = (2, 3, 2), ss_vector = (0, 0, 1)\<rparr>],
          [\<lparr>bd_number = 1, bd_angle = 90, bd_rotation = None, bd_arc_length = clr * radians 90\<rparr>,
           \<lparr>bd_number = 2, bd_angle = 90, bd_rotation = Some 90, bd_arc_length = clr * radians 90\<rparr>])"
proof -
  have ne: "map get_sketch_entity_endpoints example_lines \<noteq> []" by (simp add: example_lines_def)
  have la: "length example_arcs = Suc (Suc 0)" by (simp add: example_arcs_def)
  have vs: "map vector_of [((0, 0, 0), (1, 0, 0)), ((2, 1, 0), (2, 2, 0)), ((2, 3, 1), (2, 3, 2))]
    = [(1, 0, 0), (0, 1, 0), (0, 0, 1::real)]"
    by (simp add: vector_of_def component_def)
  have ns: "bend_normals [(1, 0, 0), (0, 1, 0), (0, 0, 1)] (Suc (Suc 0)) = [(0, 0, 1), (1, 0, 0)]"
    by (simp add: bend_normals_def cross_product_def)
  have bs: "build_bends clr [(1, 0, 0), (0, 1, 0), (0, 0, 1)] [(0, 0, 1), (1, 0, 0)] 0 (Suc (Suc 0)) =
    Inr [\<lparr>bd_number = 1, bd_angle = 90, bd_rotation = None, bd_arc_length = clr * radians 90\<rparr>,
         \<lparr>bd_number = 2, bd_angle = 90, bd_rotation = Some 90, bd_arc_length = clr * radians 90\<rparr>]"
    by (simp add: angle_right calculate_rotation_def Let_def)
  have ss: "build_straights cm_units 0 [((0, 0, 0), (1, 0, 0)), ((2, 1, 0), (2, 2, 0)), ((2, 3, 1), (2, 3, 2))] =
    [\<lparr>ss_number = 1, ss_length = 1, ss_start = (0, 0, 0), ss_end = (1, 0, 0), ss_vector = (1, 0, 0)\<rparr>,
           \<lparr>ss_number = 2, ss_length = 1, ss_start = (2, 1, 0), ss_end = (2, 2, 0), ss_vector = (0, 1, 0)\<rparr>,
           \<lparr>ss_number = 3, ss_length = 1, ss_start = (2, 3, 1), ss_end = (2, 3, 2), ss_vector = (0, 0, 1)\<rparr>]"
    by (simp add: Let_def vector_of_def component_def scale_point_def cm_units_def magnitude_unit)
  show ?thesis
    unfolding calculate_straights_and_bends_def Let_def example_corrected vs la ns bs ss
    using ne by simp
qed


lemma example_path_entities:
  "line_entities example_path = example_lines" "arc_entities example_path = example_arcs"
  by (simp_all add: example_path_def example_lines_def example_arcs_def)

lemma example_clr:
  "validate_clr_consistency example_arcs cm_units = (1, False, [1, 1])"
  by (simp add: validate_clr_consistency_def example_arcs_def cm_units_def Let_def
      CLR_TOLERANCE_RATIO_def)

lemma str_int_digits:
  "str_int 1 = ''1''" "str_int 2 = ''2''" "str_int 3 = ''3''"
  by (simp_all add: str_int_def str_nat.simps digit_char_def)

lemma example_single_calc:
  "calculate_straights_and_bends [sketch_line (0, 0, 0) (1, 0, 0)] [] (0, 0, 0) clr cm_units =
     Inr ([\<lparr>ss_number = 1, ss_length = 1, ss_start = (0, 0, 0), ss_end = (1, 0, 0),
             ss_vector = (1, 0, 0)\<rparr>], [])"
  by (simp add: calculate_straights_and_bends_def Let_def corrected_points_def orient_def
      distance_between_points_def get_sketch_entity_endpoints_def sketch_line_def
      vector_of_def component_def scale_point_def cm_units_def magnitude_unit bend_normals_def)

lemma example_single_generate:
  "generate cm_units [line (sketch_line (0, 0, 0) (1, 0, 0))] (0, 0, 0) example_params
     ''part'' ''+X'' False False
       = Inr \<lparr>gr_success = True, gr_data = Some example_single_sheet, gr_error = []\<rparr>"
proof -
  have v: "validate_clr_consistency (arc_entities [line (sketch_line (0, 0, 0) (1, 0, 0))]) cm_units
    = (0, False, [])"
    by (simp add: validate_clr_consistency_def)
  have c: "calculate_straights_and_bends (line_entities [line (sketch_line (0, 0, 0) (1, 0, 0))])
      (arc_entities [line (sketch_line (0, 0, 0) (1, 0, 0))]) (0, 0, 0) 0 cm_units =
     Inr ([\<lparr>ss_number = 1, ss_length = 1, ss_start = (0, 0, 0), ss_end = (1, 0, 0),
             ss_vector = (1, 0, 0)\<rparr>], [])"
    by (simp add: example_single_calc)
  show ?thesis
    unfolding generate_Inr [OF v c]
    by (simp add: example_single_sheet_def example_params_def build_segments_and_marks_fst
        build_segments_and_marks_snd build_segments_Cons_no_bend str_int_digits py_sum_def)
qed

lemma example_calc_unit:
  "calculate_straights_and_bends example_lines example_arcs (0, 0, 0) 1 cm_units =
     Inr (example_straights, example_bends)"
  unfolding example_straights_def example_bends_def by (rule example_calc)


subsection \<open>Contiguity and total length\<close>





subsection \<open>Grip and tail\<close>

text \<open>
  C7. Whenever the calculation of the straights and bends succeeds, \<^verbatim>\<open>generate\<close> returns a
  successful result, whatever the grip and tail parameters are. In its data the extra
  material is \<open>max 0 (min_grip - (first length - die_offset))\<close> when \<open>min_grip > 0\<close> and 0
  otherwise; the grip violations are the numbers of the straights other than the last whose
  length is below \<open>min_grip\<close> (none when \<open>min_grip\<close> is not positive); the tail violation
  flag says that \<open>min_tail > 0\<close> and the last straight is shorter than \<open>min_tail\<close>.
\<close>

theorem generate_grip_tail_reported:
  fixes params :: BendSheetParams
  assumes "calculate_straights_and_bends (line_entities ordered_path) (arc_entities ordered_path)
      start_point (fst (validate_clr_consistency (arc_entities ordered_path) units)) units
      = Inr (straights, bends)"
  shows "\<exists>d. generate units ordered_path start_point params cn td sa ea
           = Inr \<lparr>gr_success = True, gr_data = Some d, gr_error = []\<rparr>
    \<and> sd_straights d = straights
    \<and> sd_extra_material d =
        (if p_min_grip params > 0
         then max 0 (p_min_grip params - (ss_length (hd straights) - p_die_offset params))
         else 0)
    \<and> (p_min_grip params = 0 \<longrightarrow> sd_extra_material d = 0)
    \<and> sd_grip_violations d =
        (if p_min_grip params > 0
         then map ss_number (filter (\<lambda>s. ss_length s < p_min_grip params) (butlast straights))
         else [])
    \<and> sd_tail_violation d =
        (p_min_tail params > 0 \<and> ss_length (last straights) < p_min_tail params)"
proof -
  obtain clr mm vals where
    v: "validate_clr_consistency (arc_entities ordered_path) units = (clr, mm, vals)"
    by (cases "validate_clr_consistency (arc_entities ordered_path) units") auto
  from assms v have c: "calculate_straights_and_bends (line_entities ordered_path)
      (arc_entities ordered_path) start_point clr units = Inr (straights, bends)"
    by simp
  show ?thesis
    unfolding generate_Inr [OF v c, of params cn td sa ea] by simp
qed

theorem generate_grip_tail_reported_witness:
  "\<exists>d. generate cm_units example_path (0, 0, 0) example_tube_params ''part'' ''+X'' False False
           = Inr \<lparr>gr_success = True, gr_data = Some d, gr_error = []\<rparr>
    \<and> map ss_length (sd_straights d) = [1, 1, 1]
    \<and> sd_extra_material d = 5 / 2
    \<and> sd_grip_violations d = [1, 2]
    \<and> sd_tail_violation d = True"
proof -
  let ?ss = "[\<lparr>ss_number = 1, ss_length = 1, ss_start = (0, 0, 0), ss_end = (1, 0, 0), ss_vector = (1, 0, 0)\<rparr>,
           \<lparr>ss_number = 2, ss_length = 1, ss_start = (2, 1, 0), ss_end = (2, 2, 0), ss_vector = (0, 1, 0)\<rparr>,
           \<lparr>ss_number = 3, ss_length = 1, ss_start = (2, 3, 1), ss_end = (2, 3, 2), ss_vector = (0, 0, 1)\<rparr>]"
  let ?bs = "[\<lparr>bd_number = 1, bd_angle = 90, bd_rotation = None, bd_arc_length = 1 * radians 90\<rparr>,
           \<lparr>bd_number = 2, bd_angle = 90, bd_rotation = Some 90, bd_arc_length = 1 * radians 90\<rparr>]"
  have c: "calculate_straights_and_bends (line_entities example_path) (arc_entities example_path)
      (0, 0, 0) (fst (validate_clr_consistency (arc_entities example_path) cm_units)) cm_units
      = Inr (?ss, ?bs)"
    by (simp only: example_path_entities example_clr fst_conv example_calc)
  from generate_grip_tail_reported [OF c, of example_tube_params "''part''" "''+X''" False False]
  obtain d where d: "generate cm_units example_path (0, 0, 0) example_tube_params ''part'' ''+X''
        False False = Inr \<lparr>gr_success = True, gr_data = Some d, gr_error = []\<rparr>"
    "sd_straights d = ?ss"
    "sd_extra_material d =
        (if p_min_grip example_tube_params > 0
         then max 0 (p_min_grip example_tube_params
                - (ss_length (hd ?ss) - p_die_offset example_tube_params))
         else 0)"
    "sd_grip_violations d =
        (if p_min_grip example_tube_params > 0
         then map ss_number (filter (\<lambda>s. ss_length s < p_min_grip example_tube_params) (butlast ?ss))
         else [])"
    "sd_tail_violation d =
        (p_min_tail example_tube_params > 0 \<and> ss_length (last ?ss) < p_min_tail example_tube_params)"
    by blast
  have "map ss_length (sd_straights d) = [1, 1, 1]" unfolding d(2) by simp
  moreover have "sd_extra_material d = 5 / 2"
    unfolding d(3) by (simp add: example_tube_params_def)
  moreover have "sd_grip_violations d = [1, 2]"
    unfolding d(4) by (simp add: example_tube_params_def)
  moreover have "sd_tail_violation d = True"
    unfolding d(5) by (simp add: example_tube_params_def)
  ultimately show ?thesis using d(1) by (intro exI [of _ d]) simp
qed


subsection \<open>Where the bend segments are, and what the marks find\<close>

lemma build_segments_bend_nth:
  "j < length ss \<Longrightarrow> i + j < length bends \<Longrightarrow>
   2 * j + 1 < length (build_segments bends i ss c) \<and>
   ps_segment_type (build_segments bends i ss c ! (2 * j + 1)) = bend \<and>
   ps_name (build_segments bends i ss c ! (2 * j + 1))
     = ''BEND '' @ str_int (bd_number (bends ! (i + j))) \<and>
   ps_length (build_segments bends i ss c ! (2 * j + 1)) = bd_arc_length (bends ! (i + j)) \<and>
   ps_bend_angle (build_segments bends i ss c ! (2 * j + 1)) = Some (bd_angle (bends ! (i + j))) \<and>
   ps_rotation (build_segments bends i ss c ! (2 * j + 1)) = None"
proof (induction ss arbitrary: i c j)
  case Nil
  then show ?case by simp
next
  case (Cons s rest)
  from Cons.prems have i: "i < length bends" by simp
  show ?case
  proof (cases j)
    case 0
    then show ?thesis unfolding build_segments_Cons_bend [OF i] by simp
  next
    case (Suc j')
    with Cons.prems have "j' < length rest" "Suc i + j' < length bends" by simp_all
    from Cons.IH [OF this, of "c + ss_length s + bd_arc_length (bends ! i)"] Suc
    show ?thesis unfolding build_segments_Cons_bend [OF i] by simp
  qed
qed

lemma find_bend_start_build_segments:
  "j < length ss \<Longrightarrow> i + j < length bends \<Longrightarrow>
   (\<forall>k<j. bd_number (bends ! (i + k)) \<noteq> bd_number (bends ! (i + j))) \<Longrightarrow>
   find_bend_start (''BEND '' @ str_int (bd_number (bends ! (i + j)))) (build_segments bends i ss c)
     = ps_starts_at (build_segments bends i ss c ! (2 * j + 1))"
proof (induction ss arbitrary: i c j)
  case Nil
  then show ?case by simp
next
  case (Cons s rest)
  from Cons.prems have i: "i < length bends" by simp
  show ?case
  proof (cases j)
    case 0
    then show ?thesis unfolding build_segments_Cons_bend [OF i] by simp
  next
    case (Suc j')
    with Cons.prems have a: "j' < length rest" "Suc i + j' < length bends" by simp_all
    have b: "\<forall>k<j'. bd_number (bends ! (Suc i + k)) \<noteq> bd_number (bends ! (Suc i + j'))"
    proof (intro allI impI)
      fix k assume "k < j'"
      then have "Suc k < j" using Suc by simp
      with Cons.prems(3) have "bd_number (bends ! (i + Suc k)) \<noteq> bd_number (bends ! (i + j))"
        by blast
      then show "bd_number (bends ! (Suc i + k)) \<noteq> bd_number (bends ! (Suc i + j'))"
        using Suc by simp
    qed
    have "0 < j" using Suc by simp
    with Cons.prems(3) have "bd_number (bends ! (i + 0)) \<noteq> bd_number (bends ! (i + j))"
      by blast
    then have ne: "str_int (bd_number (bends ! i)) \<noteq> str_int (bd_number (bends ! (i + j)))"
      using str_int_inj by auto
    from Cons.IH [OF a b, of "c + ss_length s + bd_arc_length (bends ! i)"] Suc ne
    show ?thesis unfolding build_segments_Cons_bend [OF i] by simp
  qed
qed


subsection \<open>Mark positions\<close>

text \<open>
  C1, as stated, fails when two bends carry the same number: the mark of the later bend is
  looked up by name and finds the segment of the earlier one. With three unit straights and
  two bends numbered 1 (arc lengths 1 and 2), the second bend's segment is the fourth
  segment and starts at 3, while its mark is at 1.
\<close>

theorem mark_position_same_number_counterexample:
  "ps_segment_type (fst (build_segments_and_marks
       [make_straight 1 1, make_straight 2 1, make_straight 3 1] same_number_bends 0 0) ! 3) = bend
   \<and> ps_length (fst (build_segments_and_marks
       [make_straight 1 1, make_straight 2 1, make_straight 3 1] same_number_bends 0 0) ! 3) = 2
   \<and> ps_starts_at (fst (build_segments_and_marks
       [make_straight 1 1, make_straight 2 1, make_straight 3 1] same_number_bends 0 0) ! 3) = 3
   \<and> mp_mark_position (snd (build_segments_and_marks
       [make_straight 1 1, make_straight 2 1, make_straight 3 1] same_number_bends 0 0) ! 1) = 1
   \<and> mp_mark_position (snd (build_segments_and_marks
       [make_straight 1 1, make_straight 2 1, make_straight 3 1] same_number_bends 0 0) ! 1)
     \<noteq> ps_starts_at (fst (build_segments_and_marks
       [make_straight 1 1, make_straight 2 1, make_straight 3 1] same_number_bends 0 0) ! 3) - 0"
proof -
  have segs: "build_segments same_number_bends 0
      [make_straight 1 1, make_straight 2 1, make_straight 3 1] 0 =
    [\<lparr>ps_segment_type = straight, ps_name = ''Straight 1'', ps_length = 1, ps_starts_at = 0,
       ps_ends_at = 1, ps_bend_angle = None, ps_rotation = None\<rparr>,
     \<lparr>ps_segment_type = bend, ps_name = ''BEND 1'', ps_length = 1, ps_starts_at = 1,
       ps_ends_at = 2, ps_bend_angle = Some 45, ps_rotation = None\<rparr>,
     \<lparr>ps_segment_type = straight, ps_name = ''Straight 2'', ps_length = 1, ps_starts_at = 2,
       ps_ends_at = 3, ps_bend_angle = None, ps_rotation = None\<rparr>,
     \<lparr>ps_segment_type = bend, ps_name = ''BEND 1'', ps_length = 2, ps_starts_at = 3,
       ps_ends_at = 5, ps_bend_angle = Some 90, ps_rotation = None\<rparr>,
     \<lparr>ps_segment_type = straight, ps_name = ''Straight 3'', ps_length = 1, ps_starts_at = 5,
       ps_ends_at = 6, ps_bend_angle = None, ps_rotation = None\<rparr>]"
    by (simp add: same_number_bends_def make_straight_def build_segments_Cons_bend
        build_segments_Cons_no_bend str_int_digits)
  have m: "mp_mark_position (snd (build_segments_and_marks
       [make_straight 1 1, make_straight 2 1, make_straight 3 1] same_number_bends 0 0) ! 1) = 1"
    unfolding build_segments_and_marks_snd segs
    by (simp add: same_number_bends_def mark_of_def str_int_digits)
  show ?thesis
    unfolding m unfolding build_segments_and_marks_fst segs by simp
qed

text \<open>
  C1, amended. Straights of lengths 10 and 10 and one bend of arc length 5, with extra
  material 2 and die offset 0.5, give three segments from 2 to 12, 12 to 17 and 17 to 27 and
  one mark at 11.5. There is one mark for each bend. For every bend that has a segment in
  the timeline (its index is below the number of straights) and whose number differs from
  the numbers of all bends before it, that segment is the one at index \<open>2 * j + 1\<close>, and
  the bend's mark position is that segment's \<^verbatim>\<open>starts_at\<close> minus the die offset.
\<close>

theorem build_segments_and_marks_mark_position:
  fixes straights :: "StraightSection list" and bends :: "BendData list"
    and extra_material die_offset :: real
    and s1 s2 :: StraightSection and b :: BendData
  defines "segments \<equiv> fst (build_segments_and_marks straights bends extra_material die_offset)"
    and "marks \<equiv> snd (build_segments_and_marks straights bends extra_material die_offset)"
  shows "map (\<lambda>s. (ps_starts_at s, ps_ends_at s))
          (fst (build_segments_and_marks [s1\<lparr>ss_length := 10\<rparr>, s2\<lparr>ss_length := 10\<rparr>]
                 [b\<lparr>bd_arc_length := 5\<rparr>] 2 0.5))
        = [(2, 12), (12, 17), (17, 27)]
    \<and> map mp_mark_position
          (snd (build_segments_and_marks [s1\<lparr>ss_length := 10\<rparr>, s2\<lparr>ss_length := 10\<rparr>]
                 [b\<lparr>bd_arc_length := 5\<rparr>] 2 0.5))
        = [11.5]
    \<and> length marks = length bends
    \<and> (\<forall>j. j < length bends \<and> j < length straights
             \<and> (\<forall>k<j. bd_number (bends ! k) \<noteq> bd_number (bends ! j)) \<longrightarrow>
           2 * j + 1 < length segments
           \<and> ps_segment_type (segments ! (2 * j + 1)) = bend
           \<and> ps_name (segments ! (2 * j + 1)) = ''BEND '' @ str_int (bd_number (bends ! j))
           \<and> ps_length (segments ! (2 * j + 1)) = bd_arc_length (bends ! j)
           \<and> mp_bend_num (marks ! j) = bd_number (bends ! j)
           \<and> mp_mark_position (marks ! j) = ps_starts_at (segments ! (2 * j + 1)) - die_offset)"
proof (intro conjI allI impI)
  show "map (\<lambda>s. (ps_starts_at s, ps_ends_at s))
          (fst (build_segments_and_marks [s1\<lparr>ss_length := 10\<rparr>, s2\<lparr>ss_length := 10\<rparr>]
                 [b\<lparr>bd_arc_length := 5\<rparr>] 2 0.5))
        = [(2, 12), (12, 17), (17, 27)]"
    by (simp add: build_segments_and_marks_fst build_segments_Cons_bend
        build_segments_Cons_no_bend)
  show "map mp_mark_position
          (snd (build_segments_and_marks [s1\<lparr>ss_length := 10\<rparr>, s2\<lparr>ss_length := 10\<rparr>]
                 [b\<lparr>bd_arc_length := 5\<rparr>] 2 0.5))
        = [11.5]"
    by (simp add: build_segments_and_marks_snd build_segments_Cons_bend
        build_segments_Cons_no_bend mark_of_def)
  show "length marks = length bends"
    by (simp add: marks_def build_segments_and_marks_snd)
next
  fix j
  assume h: "j < length bends \<and> j < length straights
    \<and> (\<forall>k<j. bd_number (bends ! k) \<noteq> bd_number (bends ! j))"
  then have j: "j < length straights" "0 + j < length bends"
    and dist: "\<forall>k<j. bd_number (bends ! (0 + k)) \<noteq> bd_number (bends ! (0 + j))"
    by simp_all
  have segs: "segments = build_segments bends 0 straights extra_material"
    by (simp add: segments_def build_segments_and_marks_fst)
  note n = build_segments_bend_nth [OF j, of extra_material]
  note f = find_bend_start_build_segments [OF j dist, of extra_material]
  from n show "2 * j + 1 < length segments" by (simp add: segs)
  from n show "ps_segment_type (segments ! (2 * j + 1)) = bend" by (simp add: segs)
  from n show "ps_name (segments ! (2 * j + 1)) = ''BEND '' @ str_int (bd_number (bends ! j))"
    by (simp add: segs)
  from n show "ps_length (segments ! (2 * j + 1)) = bd_arc_length (bends ! j)"
    by (simp add: segs)
  from h show "mp_bend_num (marks ! j) = bd_number (bends ! j)"
    by (simp add: marks_def build_segments_and_marks_snd mark_of_def)
  from h f show "mp_mark_position (marks ! j) = ps_starts_at (segments ! (2 * j + 1)) - die_offset"
    by (simp add: marks_def segs build_segments_and_marks_snd mark_of_def)
qed

theorem build_segments_and_marks_mark_position_witness:
  "(1::nat) < length multi_bend_bends \<and> (1::nat) < length multi_bend_straights
   \<and> bd_number (multi_bend_bends ! 0) \<noteq> bd_number (multi_bend_bends ! 1)
   \<and> ps_segment_type (fst (build_segments_and_marks multi_bend_straights multi_bend_bends 0 1) ! 3)
       = bend
   \<and> ps_starts_at (fst (build_segments_and_marks multi_bend_straights multi_bend_bends 0 1) ! 3)
       = 22
   \<and> mp_mark_position (snd (build_segments_and_marks multi_bend_straights multi_bend_bends 0 1) ! 1)
       = 21"
proof -
  have h: "(1::nat) < length multi_bend_bends \<and> (1::nat) < length multi_bend_straights
    \<and> (\<forall>k<1. bd_number (multi_bend_bends ! k) \<noteq> bd_number (multi_bend_bends ! 1))"
    by (simp add: multi_bend_bends_def multi_bend_straights_def)
  have s: "ps_starts_at
      (fst (build_segments_and_marks multi_bend_straights multi_bend_bends 0 1) ! 3) = 22"
    by (simp add: build_segments_and_marks_fst multi_bend_bends_def multi_bend_straights_def
        make_straight_def build_segments_Cons_bend build_segments_Cons_no_bend)
  from build_segments_and_marks_mark_position [where straights = multi_bend_straights
      and bends = multi_bend_bends and extra_material = 0 and die_offset = 1] h
  have "ps_segment_type
          (fst (build_segments_and_marks multi_bend_straights multi_bend_bends 0 1) ! (2 * 1 + 1))
          = bend
    \<and> mp_mark_position (snd (build_segments_and_marks multi_bend_straights multi_bend_bends 0 1) ! 1)
       = ps_starts_at
           (fst (build_segments_and_marks multi_bend_straights multi_bend_bends 0 1) ! (2 * 1 + 1))
         - 1"
    by blast
  with s h show ?thesis by (simp add: multi_bend_bends_def)
qed


subsection \<open>Rotations\<close>

lemma build_segments_straight_segments:
  "map (\<lambda>s. (ps_name s, ps_rotation s))
     (filter (\<lambda>s. ps_segment_type s = straight) (build_segments bends i ss c)) =
   map (\<lambda>(k, s). (''Straight '' @ str_int (ss_number s),
          if k < length bends then bd_rotation (bends ! k) else None))
     (zip [i..<i + length ss] ss)"
proof (induction ss arbitrary: i c)
  case Nil
  show ?case by simp
next
  case (Cons s rest)
  have u: "[i..<i + length (s # rest)] = i # [Suc i..<Suc i + length rest]"
    using upt_conv_Cons [of i "i + length (s # rest)"] by simp
  show ?case
  proof (cases "i < length bends")
    case True
    show ?thesis
      unfolding build_segments_Cons_bend [OF True] u
      using Cons.IH [of "Suc i" "c + ss_length s + bd_arc_length (bends ! i)"] True by simp
  next
    case False
    show ?thesis
      unfolding build_segments_Cons_no_bend [OF False] u
      using Cons.IH [of "Suc i" "c + ss_length s"] False by simp
  qed
qed

lemma build_segments_bend_rotation:
  "seg \<in> set (build_segments bends i ss c) \<Longrightarrow> ps_segment_type seg = bend \<Longrightarrow>
   ps_rotation seg = None"
proof (induction ss arbitrary: i c)
  case Nil
  then show ?case by simp
next
  case (Cons s rest)
  show ?case
  proof (cases "i < length bends")
    case True
    from Cons.prems Cons.IH [of "Suc i" "c + ss_length s + bd_arc_length (bends ! i)"]
    show ?thesis unfolding build_segments_Cons_bend [OF True] by auto
  next
    case False
    from Cons.prems Cons.IH [of "Suc i" "c + ss_length s"]
    show ?thesis unfolding build_segments_Cons_no_bend [OF False] by auto
  qed
qed

text \<open>
  C4, as stated, fails for the last straight when a bend follows it: with one straight and
  one bend of rotation 30, the only straight segment, which is the last, carries 30.
\<close>

theorem last_straight_rotation_counterexample:
  "length [make_straight 1 10] = 1
   \<and> ps_segment_type (fst (build_segments_and_marks [make_straight 1 10]
        [\<lparr>bd_number = 1, bd_angle = 45, bd_rotation = Some 30, bd_arc_length = 5\<rparr>] 0 0) ! 0)
       = straight
   \<and> ps_rotation (fst (build_segments_and_marks [make_straight 1 10]
        [\<lparr>bd_number = 1, bd_angle = 45, bd_rotation = Some 30, bd_arc_length = 5\<rparr>] 0 0) ! 0)
       = Some 30
   \<and> ps_rotation (fst (build_segments_and_marks [make_straight 1 10]
        [\<lparr>bd_number = 1, bd_angle = 45, bd_rotation = Some 30, bd_arc_length = 5\<rparr>] 0 0) ! 0)
       \<noteq> None"
  by (simp add: build_segments_and_marks_fst build_segments_Cons_bend make_straight_def)

text \<open>
  C4, amended. In a result of \<^verbatim>\<open>calculate_straights_and_bends\<close> the first bend's rotation
  is \<^verbatim>\<open>None\<close> and every later bend's rotation is a number. In the segments of
  \<^verbatim>\<open>build_segments_and_marks\<close> there is one straight segment for each straight, in order;
  the i-th of them carries the rotation of the i-th bend when there is one, and \<^verbatim>\<open>None\<close>
  when there is none, which is the case of the last straight whenever there are fewer bends
  than straights; every bend segment's rotation is \<^verbatim>\<open>None\<close>.
\<close>

theorem rotation_on_segments:
  fixes straights :: "StraightSection list" and bends :: "BendData list"
    and extra_material die_offset :: real
  defines "segments \<equiv> fst (build_segments_and_marks straights bends extra_material die_offset)"
  defines "straight_segments \<equiv> filter (\<lambda>s. ps_segment_type s = straight) segments"
  shows "(calculate_straights_and_bends lines arcs path_start clr units = Inr (ss, bs) \<and> bs \<noteq> [] \<longrightarrow>
           bd_rotation (bs ! 0) = None
           \<and> (\<forall>j. 0 < j \<and> j < length bs \<longrightarrow> bd_rotation (bs ! j) \<noteq> None))
    \<and> length straight_segments = length straights
    \<and> (\<forall>i<length straights.
          ps_name (straight_segments ! i) = ''Straight '' @ str_int (ss_number (straights ! i))
          \<and> ps_rotation (straight_segments ! i) =
              (if i < length bends then bd_rotation (bends ! i) else None))
    \<and> (straights \<noteq> [] \<and> length bends < length straights \<longrightarrow>
          ps_rotation (last straight_segments) = None)
    \<and> (\<forall>seg\<in>set segments. ps_segment_type seg = bend \<longrightarrow> ps_rotation seg = None)"
proof -
  have segs: "segments = build_segments bends 0 straights extra_material"
    by (simp add: segments_def build_segments_and_marks_fst)
  have m: "map (\<lambda>s. (ps_name s, ps_rotation s)) straight_segments =
    map (\<lambda>(k, s). (''Straight '' @ str_int (ss_number s),
          if k < length bends then bd_rotation (bends ! k) else None))
     (zip [0..<length straights] straights)"
    unfolding straight_segments_def segs
    using build_segments_straight_segments [of bends 0 straights extra_material] by simp
  from arg_cong [OF m, of length] have len: "length straight_segments = length straights"
    by simp
  have nth: "(ps_name (straight_segments ! i), ps_rotation (straight_segments ! i)) =
      (''Straight '' @ str_int (ss_number (straights ! i)),
       if i < length bends then bd_rotation (bends ! i) else None)"
    if "i < length straights" for i
  proof -
    from that len have "map (\<lambda>s. (ps_name s, ps_rotation s)) straight_segments ! i =
      (ps_name (straight_segments ! i), ps_rotation (straight_segments ! i))"
      by simp
    moreover from that have "map (\<lambda>(k, s). (''Straight '' @ str_int (ss_number s),
          if k < length bends then bd_rotation (bends ! k) else None))
        (zip [0..<length straights] straights) ! i =
      (''Straight '' @ str_int (ss_number (straights ! i)),
       if i < length bends then bd_rotation (bends ! i) else None)"
      by simp
    ultimately show ?thesis using m by simp
  qed
  have first: "calculate_straights_and_bends lines arcs path_start clr units = Inr (ss, bs)
      \<and> bs \<noteq> [] \<longrightarrow>
        bd_rotation (bs ! 0) = None
        \<and> (\<forall>j. 0 < j \<and> j < length bs \<longrightarrow> bd_rotation (bs ! j) \<noteq> None)"
  proof (intro impI, elim conjE)
    assume c: "calculate_straights_and_bends lines arcs path_start clr units = Inr (ss, bs)"
      and ne: "bs \<noteq> []"
    note b = calculate_straights_and_bends_Inr(4,6) [OF c]
    from ne b(2) have "0 < length arcs" by (cases bs) auto
    from build_bends_nth [OF b(1) this]
    have z: "bd_rotation (bs ! 0) = None" by simp
    have "bd_rotation (bs ! j) \<noteq> None" if "0 < j \<and> j < length bs" for j
    proof -
      from that b(2) have "j < length arcs" by simp
      from build_bends_nth [OF b(1) this] that show ?thesis by simp
    qed
    with z show "bd_rotation (bs ! 0) = None
        \<and> (\<forall>j. 0 < j \<and> j < length bs \<longrightarrow> bd_rotation (bs ! j) \<noteq> None)"
      by blast
  qed
  have lst: "straights \<noteq> [] \<and> length bends < length straights \<longrightarrow>
          ps_rotation (last straight_segments) = None"
  proof (intro impI, elim conjE)
    assume ne: "straights \<noteq> []" and lt: "length bends < length straights"
    from ne len have "straight_segments \<noteq> []" by auto
    then have "last straight_segments = straight_segments ! (length straights - 1)"
      using len by (simp add: last_conv_nth)
    moreover from ne have "length straights - 1 < length straights" by (cases straights) simp_all
    from nth [OF this] lt have "ps_rotation (straight_segments ! (length straights - 1)) = None"
      by auto
    ultimately show "ps_rotation (last straight_segments) = None" by simp
  qed
  have bnd: "\<forall>seg\<in>set segments. ps_segment_type seg = bend \<longrightarrow> ps_rotation seg = None"
    unfolding segs using build_segments_bend_rotation by blast
  from first len nth lst bnd show ?thesis by simp
qed

theorem rotation_on_segments_witness:
  "calculate_straights_and_bends example_lines example_arcs (0, 0, 0) 1 cm_units
     = Inr (example_straights, example_bends)
   \<and> example_bends \<noteq> []
   \<and> bd_rotation (example_bends ! 0) = None
   \<and> bd_rotation (example_bends ! 1) = Some 90
   \<and> (1::nat) < length multi_bend_straights
   \<and> ps_rotation (filter (\<lambda>s. ps_segment_type s = straight)
        (fst (build_segments_and_marks multi_bend_straights multi_bend_bends 0 0)) ! 1) = Some 30
   \<and> length multi_bend_bends < length multi_bend_straights
   \<and> ps_rotation (last (filter (\<lambda>s. ps_segment_type s = straight)
        (fst (build_segments_and_marks multi_bend_straights multi_bend_bends 0 0)))) = None
   \<and> ps_rotation (fst (build_segments_and_marks multi_bend_straights multi_bend_bends 0 0) ! 3)
       = None"
proof -
  note t = rotation_on_segments [where straights = multi_bend_straights
      and bends = multi_bend_bends and extra_material = 0 and die_offset = 0
      and lines = example_lines and arcs = example_arcs and path_start = "(0, 0, 0)"
      and clr = 1 and units = cm_units and ss = example_straights and bs = example_bends]
  have c: "calculate_straights_and_bends example_lines example_arcs (0, 0, 0) 1 cm_units
     = Inr (example_straights, example_bends)"
    by (rule example_calc_unit)
  have ne: "example_bends \<noteq> []" by (simp add: example_bends_def)
  have l: "(1::nat) < length multi_bend_straights"
    "length multi_bend_bends < length multi_bend_straights" "multi_bend_straights \<noteq> []"
    by (simp_all add: multi_bend_straights_def multi_bend_bends_def)
  from t c ne have r0: "bd_rotation (example_bends ! 0) = None" by blast
  have r1: "bd_rotation (example_bends ! 1) = Some 90" by (simp add: example_bends_def)
  from t l(1) have "ps_rotation (filter (\<lambda>s. ps_segment_type s = straight)
        (fst (build_segments_and_marks multi_bend_straights multi_bend_bends 0 0)) ! 1) =
      (if 1 < length multi_bend_bends then bd_rotation (multi_bend_bends ! 1) else None)"
    by blast
  then have s1: "ps_rotation (filter (\<lambda>s. ps_segment_type s = straight)
        (fst (build_segments_and_marks multi_bend_straights multi_bend_bends 0 0)) ! 1) = Some 30"
    by (simp add: multi_bend_bends_def)
  from t l(2,3) have s2: "ps_rotation (last (filter (\<lambda>s. ps_segment_type s = straight)
        (fst (build_segments_and_marks multi_bend_straights multi_bend_bends 0 0)))) = None"
    by blast
  have s3: "ps_rotation (fst (build_segments_and_marks multi_bend_straights multi_bend_bends 0 0) ! 3)
       = None"
    by (simp add: build_segments_and_marks_fst multi_bend_bends_def multi_bend_straights_def
        make_straight_def build_segments_Cons_bend build_segments_Cons_no_bend)
  from c ne r0 r1 l(1) s1 l(2) s2 s3 show ?thesis by blast
qed


subsection \<open>Failures of the calculation\<close>

lemma angle_between_vectors_Inl:
  "angle_between_vectors v1 v2 = Inl e \<Longrightarrow> \<exists>operand. e = ZeroVectorError operand"
  by (auto simp: angle_between_vectors_def split: if_splits)

lemma build_bends_Inl:
  "build_bends clr vs ns i k = Inl e \<Longrightarrow> \<exists>operand. e = ZeroVectorError operand"
proof (induction k arbitrary: i)
  case 0
  then show ?case by simp
next
  case (Suc k)
  show ?case
  proof (cases "angle_between_vectors (vs ! i) (vs ! (i + 1))")
    case (Inl e')
    with Suc.prems have "e = e'" by simp
    with Inl angle_between_vectors_Inl show ?thesis by blast
  next
    case a: (Inr a)
    show ?thesis
    proof (cases "if i > 0 then map_sum id Some (calculate_rotation (ns ! (i - 1)) (ns ! i))
        else Inr None")
      case (Inl e')
      with a Suc.prems have e: "e = e'" by (simp add: Let_def)
      from Inl have "calculate_rotation (ns ! (i - 1)) (ns ! i) = Inl e'"
        by (cases "calculate_rotation (ns ! (i - 1)) (ns ! i)") (auto split: if_splits)
      with e angle_between_vectors_Inl show ?thesis
        unfolding calculate_rotation_def by blast
    next
      case r: (Inr r)
      show ?thesis
      proof (cases "build_bends clr vs ns (Suc i) k")
        case (Inl e')
        with a r Suc.prems have "e = e'" by (simp add: Let_def)
        with Inl Suc.IH show ?thesis by blast
      next
        case (Inr rest)
        with a r Suc.prems show ?thesis by (simp add: Let_def)
      qed
    qed
  qed
qed

lemma insufficient_not_no_lines: "insufficient_vectors_error n m \<noteq> no_lines_error"
  by (simp add: insufficient_vectors_error_def no_lines_error_def)

lemma calculate_straights_and_bends_Nil:
  "calculate_straights_and_bends [] arcs path_start clr units = Inl no_lines_error"
  by (simp add: calculate_straights_and_bends_def)

lemma calculate_straights_and_bends_insufficient:
  "lines \<noteq> [] \<Longrightarrow> length lines < length arcs + 1 \<Longrightarrow>
   calculate_straights_and_bends lines arcs path_start clr units =
     Inl (insufficient_vectors_error (length lines) (length arcs))"
  by (simp add: calculate_straights_and_bends_def Let_def corrected_points_length)

lemma calculate_straights_and_bends_sufficient:
  "lines \<noteq> [] \<Longrightarrow> \<not> length lines < length arcs + 1 \<Longrightarrow>
   calculate_straights_and_bends lines arcs path_start clr units = Inl e \<Longrightarrow>
   \<exists>operand. e = ZeroVectorError operand"
  using build_bends_Inl
  by (fastforce simp: calculate_straights_and_bends_def Let_def corrected_points_length
      split: sum.splits)

text \<open>
  C6, as stated, fails when there are no lines at all: the number of vectors, 0, is below
  the number of arcs plus one, but the function raises the \<^verbatim>\<open>ValueError\<close> for missing
  lines, not the one for insufficient vectors.
\<close>

theorem insufficient_vectors_no_lines_counterexample:
  "length ([] :: SketchLine list) < length ([] :: SketchArc list) + 1
   \<and> calculate_straights_and_bends [] [] (0, 0, 0) 1 cm_units
       = Inl (ValueError ''No lines provided - cannot calculate bend data'')
   \<and> calculate_straights_and_bends [] [] (0, 0, 0) 1 cm_units
       \<noteq> Inl (insufficient_vectors_error (length ([] :: SketchLine list))
                (length ([] :: SketchArc list)))"
  using insufficient_not_no_lines [of 0 0]
  by (simp add: calculate_straights_and_bends_Nil no_lines_error_def)

text \<open>
  C6, amended. \<^verbatim>\<open>calculate_straights_and_bends\<close> raises the \<^verbatim>\<open>ValueError\<close> for
  insufficient vectors exactly when there is at least one line and the number of lines (one
  direction vector each) is less than the number of arcs plus one; with no lines it raises
  the \<^verbatim>\<open>ValueError\<close> for missing lines. So it raises a \<^verbatim>\<open>ValueError\<close>, of one of the
  two, exactly when the number of vectors is less than the number of arcs plus one, and then
  it returns no straights and no bends.
\<close>

theorem insufficient_vectors_exactly:
  fixes lines :: "SketchLine list" and arcs :: "SketchArc list"
    and path_start :: Point3D and clr :: real and units :: UnitConfig
  defines "result \<equiv> calculate_straights_and_bends lines arcs path_start clr units"
  shows "((\<exists>n m. result = Inl (insufficient_vectors_error n m))
            = (lines \<noteq> [] \<and> length lines < length arcs + 1))
    \<and> (lines \<noteq> [] \<and> length lines < length arcs + 1 \<longrightarrow>
          result = Inl (insufficient_vectors_error (length lines) (length arcs)))
    \<and> (lines = [] \<longrightarrow> result = Inl no_lines_error)
    \<and> ((\<exists>msg. result = Inl (ValueError msg)) = (length lines < length arcs + 1))
    \<and> (length lines < length arcs + 1 \<longrightarrow> (\<forall>straights bends. result \<noteq> Inr (straights, bends)))"
proof -
  consider (none) "lines = []" | (few) "lines \<noteq> []" "length lines < length arcs + 1"
    | (enough) "lines \<noteq> []" "\<not> length lines < length arcs + 1"
    by blast
  then show ?thesis
  proof cases
    case none
    then have r: "result = Inl no_lines_error"
      by (simp add: result_def calculate_straights_and_bends_Nil)
    show ?thesis
      unfolding r
    proof (intro conjI)
      show "(\<exists>n m. Inl no_lines_error = Inl (insufficient_vectors_error n m))
            = (lines \<noteq> [] \<and> length lines < length arcs + 1)"
        using none insufficient_not_no_lines by (auto dest: sym)
      show "lines \<noteq> [] \<and> length lines < length arcs + 1 \<longrightarrow>
          Inl no_lines_error = Inl (insufficient_vectors_error (length lines) (length arcs))"
        using none by simp
      show "lines = [] \<longrightarrow> Inl no_lines_error = (Inl no_lines_error :: error + (StraightSection list \<times> BendData list))" by simp
      show "(\<exists>msg. Inl no_lines_error = Inl (ValueError msg)) = (length lines < length arcs + 1)"
        using none by (simp add: no_lines_error_def)
      show "length lines < length arcs + 1 \<longrightarrow>
          (\<forall>straights bends. Inl no_lines_error \<noteq> Inr (straights, bends))" by simp
    qed
  next
    case few
    then have r: "result = Inl (insufficient_vectors_error (length lines) (length arcs))"
      unfolding result_def by (rule calculate_straights_and_bends_insufficient)
    show ?thesis
      unfolding r using few by (auto simp: insufficient_vectors_error_def)
  next
    case enough
    have "\<exists>operand. e = ZeroVectorError operand" if "result = Inl e" for e
      using calculate_straights_and_bends_sufficient [OF enough] that
      unfolding result_def by blast
    then have "result \<noteq> Inl (ValueError msg)" for msg by auto
    then show ?thesis
      using enough by (auto simp: insufficient_vectors_error_def)
  qed
qed

theorem insufficient_vectors_exactly_witness:
  "[sketch_line (0, 0, 0) (1, 0, 0)] \<noteq> []
   \<and> length [sketch_line (0, 0, 0) (1, 0, 0)] < length example_arcs + 1
   \<and> calculate_straights_and_bends [sketch_line (0, 0, 0) (1, 0, 0)] example_arcs (0, 0, 0) 1 cm_units
       = Inl (ValueError
           ''Insufficient vectors (1) for 2 arcs - expected at least arcs + 1 vectors'')"
proof -
  have h: "[sketch_line (0, 0, 0) (1, 0, 0)] \<noteq> []
    \<and> length [sketch_line (0, 0, 0) (1, 0, 0)] < length example_arcs + 1"
    by (simp add: example_arcs_def)
  from insufficient_vectors_exactly [of "[sketch_line (0, 0, 0) (1, 0, 0)]" example_arcs
      "(0, 0, 0)" 1 cm_units] h
  have "calculate_straights_and_bends [sketch_line (0, 0, 0) (1, 0, 0)] example_arcs (0, 0, 0) 1 cm_units
    = Inl (insufficient_vectors_error (length [sketch_line (0, 0, 0) (1, 0, 0)])
        (length example_arcs))"
    by blast
  then have "calculate_straights_and_bends [sketch_line (0, 0, 0) (1, 0, 0)] example_arcs
      (0, 0, 0) 1 cm_units
    = Inl (ValueError
           ''Insufficient vectors (1) for 2 arcs - expected at least arcs + 1 vectors'')"
    by (simp add: insufficient_vectors_error_def example_arcs_def str_int_digits)
  with h show ?thesis by blast
qed

subsection \<open>A path without straights\<close>

text \<open>
  C8. For an ordered path without a line, \<^verbatim>\<open>generate\<close> does not return a failure: the
  \<^verbatim>\<open>ValueError\<close> that \<^verbatim>\<open>calculate_straights_and_bends\<close> raises for missing lines leaves
  \<^verbatim>\<open>generate\<close>. Every result that \<^verbatim>\<open>generate\<close> does return is a success, so its own check
  for missing straights is never reached.
\<close>

theorem generate_without_lines_raises:
  "(line_entities ordered_path = [] \<longrightarrow>
      generate units ordered_path start_point params cn td sa ea
        = Inl (ValueError ''No lines provided - cannot calculate bend data''))
   \<and> (generate units' ordered_path' start_point' params' cn' td' sa' ea' = Inr r \<longrightarrow>
        gr_success r = True \<and> gr_data r \<noteq> None)"
proof (intro conjI impI)
  assume n: "line_entities ordered_path = []"
  obtain clr mm vals where
    v: "validate_clr_consistency (arc_entities ordered_path) units = (clr, mm, vals)"
    by (cases "validate_clr_consistency (arc_entities ordered_path) units") auto
  have "calculate_straights_and_bends (line_entities ordered_path) (arc_entities ordered_path)
      start_point clr units = Inl no_lines_error"
    unfolding n by (rule calculate_straights_and_bends_Nil)
  from generate_Inl [OF v this]
  show "generate units ordered_path start_point params cn td sa ea
        = Inl (ValueError ''No lines provided - cannot calculate bend data'')"
    by (simp add: no_lines_error_def)
next
  assume g: "generate units' ordered_path' start_point' params' cn' td' sa' ea' = Inr r"
  obtain clr mm vals where
    v: "validate_clr_consistency (arc_entities ordered_path') units' = (clr, mm, vals)"
    by (cases "validate_clr_consistency (arc_entities ordered_path') units'") auto
  let ?calc = "calculate_straights_and_bends (line_entities ordered_path')
      (arc_entities ordered_path') start_point' clr units'"
  from g generate_Inl [OF v] obtain ss bs where c: "?calc = Inr (ss, bs)"
    by (cases ?calc) auto
  from g show "gr_success r = True" unfolding generate_Inr [OF v c] by auto
  from g show "gr_data r \<noteq> None" unfolding generate_Inr [OF v c] by auto
qed

theorem generate_without_lines_raises_witness:
  "line_entities [arc (arc_of_radius 1)] = []
   \<and> generate cm_units [arc (arc_of_radius 1)] (0, 0, 0) example_params ''part'' ''+X'' True True
       = Inl (ValueError ''No lines provided - cannot calculate bend data'')
   \<and> generate cm_units [] (0, 0, 0) example_params ''part'' ''+X'' False False
       = Inl (ValueError ''No lines provided - cannot calculate bend data'')
   \<and> generate cm_units [line (sketch_line (0, 0, 0) (1, 0, 0))] (0, 0, 0) example_params
        ''part'' ''+X'' False False
       = Inr \<lparr>gr_success = True, gr_data = Some example_single_sheet, gr_error = []\<rparr>"
proof -
  have a: "line_entities [arc (arc_of_radius 1)] = []" "line_entities [] = []" by simp_all
  note t1 = generate_without_lines_raises [where ordered_path = "[arc (arc_of_radius 1)]"
      and units = cm_units and start_point = "(0, 0, 0)" and params = example_params
      and cn = "''part''" and td = "''+X''" and sa = True and ea = True]
  note t2 = generate_without_lines_raises [where ordered_path = "[]"
      and units = cm_units and start_point = "(0, 0, 0)" and params = example_params
      and cn = "''part''" and td = "''+X''" and sa = False and ea = False]
  from t1 a(1) have b: "generate cm_units [arc (arc_of_radius 1)] (0, 0, 0) example_params
      ''part'' ''+X'' True True
       = Inl (ValueError ''No lines provided - cannot calculate bend data'')"
    by blast
  from t2 a(2) have c: "generate cm_units [] (0, 0, 0) example_params ''part'' ''+X'' False False
       = Inl (ValueError ''No lines provided - cannot calculate bend data'')"
    by blast
  from a(1) b c example_single_generate show ?thesis by blast
qed


subsection \<open>Orientation of the straights\<close>

lemma corrected_points_eq: "corrected_points p lps = orient_remaining p lps"
  by (cases lps) (simp_all add: corrected_points_def)

lemma orient_cases:
  "orient ref (s, e) =
     (if distance_between_points e ref < distance_between_points s ref then (e, s) else (s, e))"
  by (simp add: orient_def)

lemma orient_nearer:
  "distance_between_points (fst (orient ref lp)) ref \<le> distance_between_points (snd (orient ref lp)) ref"
  by (cases lp) (simp add: orient_cases)

lemma orient_remaining_nth:
  "i < length lps \<Longrightarrow>
   orient_remaining p lps ! i =
     orient (if i = 0 then p else snd (orient_remaining p lps ! (i - 1))) (lps ! i)"
proof (induction lps arbitrary: p i)
  case Nil
  then show ?case by simp
next
  case (Cons lp rest)
  show ?case
  proof (cases i)
    case 0
    then show ?thesis by (simp add: Let_def)
  next
    case (Suc j)
    with Cons.prems have "j < length rest" by simp
    from Cons.IH [OF this, of "snd (orient p lp)"] Suc show ?thesis
      by (cases j) (simp_all add: Let_def)
  qed
qed

lemma build_straights_nth:
  "j < length cs \<Longrightarrow>
   build_straights units i cs ! j =
     \<lparr>ss_number = int (i + j) + 1,
       ss_length = magnitude (vector_of (cs ! j)) * cm_to_unit units,
       ss_start = scale_point units (fst (cs ! j)), ss_end = scale_point units (snd (cs ! j)),
       ss_vector = vector_of (cs ! j)\<rparr>"
proof (induction cs arbitrary: i j)
  case Nil
  then show ?case by simp
next
  case (Cons c cs)
  then show ?case by (cases j) (simp_all add: Let_def)
qed

text \<open>
  C2. For a non-empty list of lines and a path start, the list \<^verbatim>\<open>corrected\<close> of
  \<^verbatim>\<open>calculate_straights_and_bends\<close> has one pair for each line. The pair of the first
  line is the line's two endpoints, reversed exactly when the stored end is strictly nearer
  to the path start than the stored start; the pair of every later line is decided in the
  same way by the distances to the end of the previous corrected pair. So each pair starts
  at an endpoint that is at least as near to its reference point as the other. The straights
  that a successful call returns are built from these pairs, in order.
\<close>

theorem orientation_nearest_endpoint:
  fixes lines :: "SketchLine list" and path_start :: Point3D and units :: UnitConfig
  defines "line_points \<equiv> map get_sketch_entity_endpoints lines"
  defines "corrected \<equiv> corrected_points path_start line_points"
  defines "reference \<equiv> (\<lambda>i. if i = 0 then path_start else snd (corrected ! (i - 1)))"
  assumes "lines \<noteq> []"
  shows "length corrected = length lines
    \<and> (\<forall>i<length lines.
          corrected ! i =
            (if distance_between_points (endSketchPoint (lines ! i)) (reference i)
                < distance_between_points (startSketchPoint (lines ! i)) (reference i)
             then (endSketchPoint (lines ! i), startSketchPoint (lines ! i))
             else (startSketchPoint (lines ! i), endSketchPoint (lines ! i)))
          \<and> distance_between_points (fst (corrected ! i)) (reference i)
              \<le> distance_between_points (snd (corrected ! i)) (reference i))
    \<and> (calculate_straights_and_bends lines arcs path_start clr units = Inr (straights, bends) \<longrightarrow>
          length straights = length lines
          \<and> (\<forall>i<length lines.
                ss_start (straights ! i) = scale_point units (fst (corrected ! i))
                \<and> ss_end (straights ! i) = scale_point units (snd (corrected ! i))
                \<and> ss_vector (straights ! i) = vector_of (corrected ! i)))"
proof (intro conjI allI impI)
  show len: "length corrected = length lines"
    by (simp add: corrected_def line_points_def corrected_points_length)
  {
    fix i assume i: "i < length lines"
    then have "i < length line_points" by (simp add: line_points_def)
    from orient_remaining_nth [OF this, of path_start]
    have o: "corrected ! i = orient (reference i) (line_points ! i)"
      by (simp add: corrected_def reference_def corrected_points_eq)
    have lp: "line_points ! i = (startSketchPoint (lines ! i), endSketchPoint (lines ! i))"
      using i by (simp add: line_points_def get_sketch_entity_endpoints_def)
    show "corrected ! i =
            (if distance_between_points (endSketchPoint (lines ! i)) (reference i)
                < distance_between_points (startSketchPoint (lines ! i)) (reference i)
             then (endSketchPoint (lines ! i), startSketchPoint (lines ! i))
             else (startSketchPoint (lines ! i), endSketchPoint (lines ! i)))"
      unfolding o lp by (rule orient_cases)
    show "distance_between_points (fst (corrected ! i)) (reference i)
              \<le> distance_between_points (snd (corrected ! i)) (reference i)"
      unfolding o by (rule orient_nearer)
  }
  {
    assume c: "calculate_straights_and_bends lines arcs path_start clr units = Inr (straights, bends)"
    from calculate_straights_and_bends_Inr(3) [OF c]
    have s: "straights = build_straights units 0 corrected"
      by (simp add: corrected_def line_points_def)
    from calculate_straights_and_bends_Inr(5) [OF c]
    show "length straights = length lines" .
    fix i assume "i < length lines"
    with len have "i < length corrected" by simp
    from build_straights_nth [OF this, of units 0]
    show "ss_start (straights ! i) = scale_point units (fst (corrected ! i))"
      and "ss_end (straights ! i) = scale_point units (snd (corrected ! i))"
      and "ss_vector (straights ! i) = vector_of (corrected ! i)"
      by (simp_all add: s)
  }
qed

theorem orientation_nearest_endpoint_witness:
  "example_lines \<noteq> []
   \<and> corrected_points (0, 0, 0) (map get_sketch_entity_endpoints example_lines) ! 1
       = ((2, 1, 0), (2, 2, 0))
   \<and> distance_between_points (2, 1, 0) (1, 0, 0) \<le> distance_between_points (2, 2, 0) (1, 0, 0)
   \<and> calculate_straights_and_bends example_lines example_arcs (0, 0, 0) 1 cm_units
       = Inr (example_straights, example_bends)
   \<and> ss_start (example_straights ! 1) = (2, 1, 0)
   \<and> ss_end (example_straights ! 1) = (2, 2, 0)"
proof -
  have ne: "example_lines \<noteq> []" by (simp add: example_lines_def)
  have i: "(1::nat) < length example_lines" by (simp add: example_lines_def)
  note t = orientation_nearest_endpoint [OF ne, of "(0, 0, 0)" example_arcs 1 cm_units
      example_straights example_bends]
  have c1: "corrected_points (0, 0, 0) (map get_sketch_entity_endpoints example_lines) ! 1
       = ((2, 1, 0), (2, 2, 0))"
    by (simp add: example_corrected)
  from t i have "distance_between_points
      (fst (corrected_points (0, 0, 0) (map get_sketch_entity_endpoints example_lines) ! 1))
      (if (1::nat) = 0 then (0, 0, 0)
       else snd (corrected_points (0, 0, 0) (map get_sketch_entity_endpoints example_lines) ! (1 - 1)))
    \<le> distance_between_points
      (snd (corrected_points (0, 0, 0) (map get_sketch_entity_endpoints example_lines) ! 1))
      (if (1::nat) = 0 then (0, 0, 0)
       else snd (corrected_points (0, 0, 0) (map get_sketch_entity_endpoints example_lines) ! (1 - 1)))"
    by blast
  then have d: "distance_between_points (2, 1, 0) (1, 0, 0)
      \<le> distance_between_points (2, 2, 0) (1, 0, 0)"
    by (simp add: example_corrected)
  from t example_calc_unit i
  have "ss_start (example_straights ! 1) = scale_point cm_units
      (fst (corrected_points (0, 0, 0) (map get_sketch_entity_endpoints example_lines) ! 1))
    \<and> ss_end (example_straights ! 1) = scale_point cm_units
      (snd (corrected_points (0, 0, 0) (map get_sketch_entity_endpoints example_lines) ! 1))"
    by blast
  then have s: "ss_start (example_straights ! 1) = (2, 1, 0)"
    "ss_end (example_straights ! 1) = (2, 2, 0)"
    by (simp_all add: example_corrected scale_point_def component_def cm_units_def)
  from ne c1 d example_calc_unit s show ?thesis by blast
qed


subsection \<open>The stored endpoint order does not matter\<close>

lemma orient_swap:
  "distance_between_points s ref \<noteq> distance_between_points e ref \<Longrightarrow>
   orient ref (e, s) = orient ref (s, e)"
  by (auto simp: orient_cases)

lemma orient_remaining_swap:
  "list_all2 (\<lambda>lp' lp. lp' = lp \<or> lp' = (snd lp, fst lp)) lps' lps \<Longrightarrow>
   distinct_distances p lps \<Longrightarrow>
   orient_remaining p lps' = orient_remaining p lps"
proof (induction lps' lps arbitrary: p rule: list_all2_induct)
  case Nil
  show ?case by simp
next
  case (Cons lp' lps' lp lps)
  from Cons.prems have d: "distance_between_points (fst lp) p \<noteq> distance_between_points (snd lp) p"
    and r: "distinct_distances (snd (orient p lp)) lps"
    by simp_all
  have o: "orient p lp' = orient p lp"
    using Cons.hyps(1) orient_swap [OF d] by (cases lp) auto
  from Cons.IH [OF r] show ?case by (simp add: o Let_def)
qed

text \<open>
  C10. Let every line's two endpoints lie at strictly different distances from its reference
  point (the path start for the first line, the end of the previous corrected line for each
  later one). Then storing any of the lines with its endpoints exchanged changes nothing:
  \<^verbatim>\<open>calculate_straights_and_bends\<close> computes the same corrected pairs and returns the same
  result, be it the straights and bends or an error.
\<close>

theorem endpoint_order_irrelevant:
  assumes "distinct_distances path_start (map get_sketch_entity_endpoints lines)"
    and "list_all2 (\<lambda>l' l. l' = l \<or> l' = swap_endpoints l) lines' lines"
  shows "corrected_points path_start (map get_sketch_entity_endpoints lines')
           = corrected_points path_start (map get_sketch_entity_endpoints lines)
    \<and> calculate_straights_and_bends lines' arcs path_start clr units
           = calculate_straights_and_bends lines arcs path_start clr units"
proof -
  have "list_all2 (\<lambda>lp' lp. lp' = lp \<or> lp' = (snd lp, fst lp))
      (map get_sketch_entity_endpoints lines') (map get_sketch_entity_endpoints lines)"
    using assms(2)
    by (auto simp: list_all2_map1 list_all2_map2 get_sketch_entity_endpoints_def
        swap_endpoints_def elim!: list_all2_mono)
  from orient_remaining_swap [OF this assms(1)]
  have c: "corrected_points path_start (map get_sketch_entity_endpoints lines')
           = corrected_points path_start (map get_sketch_entity_endpoints lines)"
    by (simp add: corrected_points_eq)
  from assms(2) have "length lines' = length lines" by (rule list_all2_lengthD)
  then have e: "(map get_sketch_entity_endpoints lines' = [])
      = (map get_sketch_entity_endpoints lines = [])"
    by auto
  show ?thesis
    unfolding calculate_straights_and_bends_def Let_def c e by simp
qed

theorem endpoint_order_irrelevant_witness:
  "distinct_distances (0, 0, 0) (map get_sketch_entity_endpoints example_lines)
   \<and> calculate_straights_and_bends
        [swap_endpoints (example_lines ! 0), example_lines ! 1, swap_endpoints (example_lines ! 2)]
        example_arcs (0, 0, 0) 1 cm_units
       = Inr (example_straights, example_bends)"
proof -
  have d: "distinct_distances (0, 0, 0) (map get_sketch_entity_endpoints example_lines)"
    by (simp add: example_lines_def sketch_line_def get_sketch_entity_endpoints_def
        orient_def distance_between_points_def)
  have l: "list_all2 (\<lambda>l' l. l' = l \<or> l' = swap_endpoints l)
      [swap_endpoints (example_lines ! 0), example_lines ! 1, swap_endpoints (example_lines ! 2)]
      example_lines"
    by (simp add: example_lines_def)
  from endpoint_order_irrelevant [OF d l, of example_arcs 1 cm_units] example_calc_unit d
  show ?thesis by simp
qed


end
